theory Spec2Isabelle
  imports Main "HOL-Library.Code_Target_Numeral"
begin

section \<open>Python values as they reach \<open>AmapNavigation\<close>\<close>

text \<open>
  A Python \<open>str\<close> is a sequence of Unicode code points, so it is modelled as a list of
  natural numbers. The ASCII literals of the source (dictionary keys, punctuation) are
  written through \<open>asc\<close>; the Chinese literals are given by their code points.
\<close>

type_synonym pystr = "nat list"

definition asc :: "string \<Rightarrow> pystr" where
  "asc s = map of_char s"

text \<open>
  A str may hold a lone surrogate (a code point from \<open>D800\<close> to \<open>DFFF\<close>): the JSON
  parser delivers one from an escape such as \<open>\ud83d\<close>. Such a str cannot be encoded
  to UTF-8, so it can neither be printed nor sent as a parameter of a request. The type
  \<open>ptext\<close> holds the strs without any: what the runtime builds with \<open>repr\<close> and for
  the message of an exception (\<open>repr\<close> escapes a lone surrogate).
\<close>

definition is_surrogate :: "nat \<Rightarrow> bool" where
  "is_surrogate c = (0xD800 \<le> c \<and> c \<le> 0xDFFF)"

definition has_surrogate :: "pystr \<Rightarrow> bool" where
  "has_surrogate s = list_ex is_surrogate s"

typedef ptext = "{s :: nat list. \<not> has_surrogate s}"
  morphisms chars Text
  by (rule exI [of _ "[]"]) (simp add: has_surrogate_def)

setup_lifting type_definition_ptext

text \<open>An ASCII literal as text.\<close>

lift_definition ascii_text :: "string \<Rightarrow> ptext" is asc
proof -
  fix s :: string
  have "\<not> is_surrogate (of_char c)" for c :: char
  proof -
    have "(of_char c :: nat) mod 256 < 256" by simp
    then have "(of_char c :: nat) < 256" by (simp only: of_char_mod_256)
    then show ?thesis unfolding is_surrogate_def by linarith
  qed
  then show "\<not> has_surrogate (asc s)"
    by (simp add: has_surrogate_def asc_def list_ex_iff)
qed

text \<open>
  A Python \<open>float\<close> is an IEEE double: \<open>Finite m e\<close> stands for the number
  \<open>m * 2 ^ e\<close> (for a negative \<open>e\<close>, \<open>m / 2 ^ (- e)\<close>); the negative zero and the
  three special values are constructors of their own.
\<close>

datatype pyfloat = Finite int int | NegZero | PosInf | NegInf | NaN

text \<open>
  What \<open>response.json()\<close> can return: \<open>None\<close>, \<open>bool\<close>, \<open>int\<close>, \<open>float\<close>, \<open>str\<close>,
  \<open>list\<close> and \<open>dict\<close> with \<open>str\<close> keys. A \<open>dict\<close> is an association list in insertion
  order; a lookup takes the first binding of a key (a \<open>dict\<close> built by the JSON parser
  has one binding for each key). The parser bounds the nesting of a body and, by the
  cap on digits, the size of its ints, so that the \<open>repr\<close> of a body exists.
\<close>

datatype json =
    JNull
  | JBool bool
  | JInt int
  | JFloat pyfloat
  | JStr pystr
  | JList "json list"
  | JObj "(pystr \<times> json) list"

text \<open>
  The exceptions of the model. All of them are subclasses of \<open>Exception\<close>, hence caught
  by \<open>except Exception\<close>. \<open>RequestException\<close> is what \<open>requests.get\<close> raises on a
  transport failure, \<open>JSONDecodeError\<close> what \<open>response.json()\<close> raises on a malformed
  body, \<open>UnicodeEncodeError\<close> what \<open>print\<close> raises on a str that cannot be encoded.
  Asynchronous exceptions (\<open>KeyboardInterrupt\<close>) and a standard output that is closed
  or is not UTF-8 are outside the model.
\<close>

datatype pyexn =
    KeyError json
  | IndexError
  | TypeError
  | ValueError
  | AttributeError
  | OverflowError
  | ZeroDivisionError
  | UnicodeEncodeError
  | RequestException pystr
  | JSONDecodeError pystr

type_synonym 'a res = "pyexn + 'a"

text \<open>
  What the program takes from its surroundings: the HTTP exchange
  (\<open>requests.get(url, params=params).json()\<close>, which raises or yields a parsed body),
  the text of \<open>str(e)\<close> for an exception, the text of \<open>str(x)\<close> for a float, a list or a
  dict (their \<open>repr\<close>), the two tables of the Unicode database that \<open>int\<close> consults
  for the code points from 127 on, and the cap of the interpreter on the number of
  digits in a conversion between \<open>int\<close> and \<open>str\<close>
  (\<open>sys.get_int_max_str_digits()\<close>: 4300 by default where there is a cap, 0 where
  there is none).
\<close>

record runtime =
  http_get_json :: "pystr \<Rightarrow> (pystr \<times> pystr) list \<Rightarrow> json res"
  exn_str :: "pyexn \<Rightarrow> ptext"
  float_repr :: "pyfloat \<Rightarrow> ptext"
  container_repr :: "json \<Rightarrow> ptext"
  unicode_isspace :: "nat \<Rightarrow> bool"
  unicode_todecimal :: "nat \<Rightarrow> nat option"
  max_str_digits :: nat

subsection \<open>Truth value, subscription, membership\<close>

text \<open>\<open>bool(x)\<close>, as \<open>not x\<close> and \<open>if x:\<close> use it.\<close>

fun truthy :: "json \<Rightarrow> bool" where
  "truthy JNull = False"
| "truthy (JBool b) = b"
| "truthy (JInt n) = (n \<noteq> 0)"
| "truthy (JFloat (Finite m e)) = (m \<noteq> 0)"
| "truthy (JFloat NegZero) = False"
| "truthy (JFloat f) = True"
| "truthy (JStr s) = (s \<noteq> [])"
| "truthy (JList xs) = (xs \<noteq> [])"
| "truthy (JObj kvs) = (kvs \<noteq> [])"

text \<open>
  \<open>x[k]\<close> for a \<open>str\<close> key \<open>k\<close>: a dict looks the key up and raises \<open>KeyError\<close> when
  it is absent; a list and a str refuse a str index, the other values are not
  subscriptable (\<open>TypeError\<close> each time).
\<close>

fun getitem_key :: "json \<Rightarrow> pystr \<Rightarrow> json res" where
  "getitem_key (JObj kvs) k =
     (case map_of kvs k of None \<Rightarrow> Inl (KeyError (JStr k)) | Some v \<Rightarrow> Inr v)"
| "getitem_key v k = Inl TypeError"

text \<open>
  \<open>x[0]\<close>: the first element of a list, the first character of a str (\<open>IndexError\<close> when
  empty); in a dict \<open>0\<close> is looked up as a key, and no key of a parsed JSON object is an
  int.
\<close>

fun getitem_0 :: "json \<Rightarrow> json res" where
  "getitem_0 (JList []) = Inl IndexError"
| "getitem_0 (JList (x # xs)) = Inr x"
| "getitem_0 (JStr []) = Inl IndexError"
| "getitem_0 (JStr (c # cs)) = Inr (JStr [c])"
| "getitem_0 (JObj kvs) = Inl (KeyError (JInt 0))"
| "getitem_0 v = Inl TypeError"

fun starts_with :: "pystr \<Rightarrow> pystr \<Rightarrow> bool" where
  "starts_with [] cs = True"
| "starts_with (p # ps) [] = False"
| "starts_with (p # ps) (c # cs) = (p = c \<and> starts_with ps cs)"

fun str_contains :: "pystr \<Rightarrow> pystr \<Rightarrow> bool" where
  "str_contains p [] = (p = [])"
| "str_contains p (c # cs) = (starts_with p (c # cs) \<or> str_contains p cs)"

text \<open>
  \<open>k in x\<close> for a str \<open>k\<close>: key membership in a dict, element membership in a list,
  substring test in a str, \<open>TypeError\<close> for a value that is not iterable.
\<close>

fun contains :: "pystr \<Rightarrow> json \<Rightarrow> bool res" where
  "contains k (JObj kvs) = Inr (map_of kvs k \<noteq> None)"
| "contains k (JList xs) = Inr (List.member xs (JStr k))"
| "contains k (JStr s) = Inr (str_contains k s)"
| "contains k v = Inl TypeError"

text \<open>\<open>x.get(k, default)\<close>: only a dict has the method.\<close>

fun dict_get :: "json \<Rightarrow> pystr \<Rightarrow> json \<Rightarrow> json res" where
  "dict_get (JObj kvs) k dflt = Inr (case map_of kvs k of None \<Rightarrow> dflt | Some v \<Rightarrow> v)"
| "dict_get v k dflt = Inl AttributeError"

text \<open>
  What a \<open>for\<close> loop (here through \<open>enumerate\<close>) runs over: the elements of a list, the
  characters of a str, the keys of a dict; \<open>TypeError\<close> otherwise.
\<close>

fun py_iter :: "json \<Rightarrow> json list res" where
  "py_iter (JList xs) = Inr xs"
| "py_iter (JStr s) = Inr (map (\<lambda>c. JStr [c]) s)"
| "py_iter (JObj kvs) = Inr (map (\<lambda>kv. JStr (fst kv)) kvs)"
| "py_iter v = Inl TypeError"

subsection \<open>\<open>int(x)\<close>\<close>

definition is_digit :: "nat \<Rightarrow> bool" where
  "is_digit c = (48 \<le> c \<and> c \<le> 57)"

definition is_space :: "nat \<Rightarrow> bool" where
  "is_space c = (c = 32 \<or> (9 \<le> c \<and> c \<le> 13))"

text \<open>
  \<open>int\<close> first maps a str to ASCII: a code point below 127 stays, a Unicode space becomes
  a blank, a Unicode decimal digit its ASCII digit, anything else \<open>?\<close>.
\<close>

definition to_ascii :: "runtime \<Rightarrow> nat \<Rightarrow> nat" where
  "to_ascii rt c =
     (if c < 127 then c
      else if unicode_isspace rt c then 32
      else (case unicode_todecimal rt c of
              Some d \<Rightarrow> if d < 10 then 48 + d else 63
            | None \<Rightarrow> 63))"

text \<open>
  Then: blanks, an optional sign, decimal digits with single underscores between them,
  blanks. \<open>digits_from acc cs\<close> is called after a digit has been read.
\<close>

fun digits_from :: "int \<Rightarrow> nat list \<Rightarrow> int option" where
  "digits_from acc [] = Some acc"
| "digits_from acc [c] = (if is_digit c then Some (10 * acc + (int c - 48)) else None)"
| "digits_from acc (c # d # cs) =
     (if is_digit c then digits_from (10 * acc + (int c - 48)) (d # cs)
      else if c = 95 \<and> is_digit d then digits_from (10 * acc + (int d - 48)) cs
      else None)"

definition parse_digits :: "nat list \<Rightarrow> int option" where
  "parse_digits cs =
     (case cs of
        [] \<Rightarrow> None
      | c # rest \<Rightarrow> if is_digit c then digits_from (int c - 48) rest else None)"

definition strip :: "nat list \<Rightarrow> nat list" where
  "strip cs = rev (dropWhile is_space (rev (dropWhile is_space cs)))"

text \<open>
  The cap on a conversion between \<open>int\<close> and \<open>str\<close>: more than 640 digits are looked
  at, and refused when there is a cap and they are more than the cap. What counts is
  the number of digit characters, leading zeros included, without sign, underscores
  and blanks.
\<close>

definition over_cap :: "runtime \<Rightarrow> nat \<Rightarrow> bool" where
  "over_cap rt digits =
     (640 < digits \<and> 0 < max_str_digits rt \<and> max_str_digits rt < digits)"

definition int_of_str :: "runtime \<Rightarrow> pystr \<Rightarrow> int res" where
  "int_of_str rt s =
     (let body = strip (map (to_ascii rt) s);
          r = (case body of
                 [] \<Rightarrow> None
               | c # rest \<Rightarrow>
                   if c = 45 then map_option uminus (parse_digits rest)
                   else if c = 43 then parse_digits rest
                   else parse_digits body)
      in case r of
           None \<Rightarrow> Inl ValueError
         | Some n \<Rightarrow>
             if over_cap rt (length (filter is_digit body)) then Inl ValueError else Inr n)"

text \<open>A float is truncated towards zero.\<close>

fun int_of_float :: "pyfloat \<Rightarrow> int res" where
  "int_of_float (Finite m e) =
     Inr (if 0 \<le> e then m * 2 ^ nat e
          else if 0 \<le> m then m div 2 ^ nat (- e)
          else - ((- m) div 2 ^ nat (- e)))"
| "int_of_float NegZero = Inr 0"
| "int_of_float PosInf = Inl OverflowError"
| "int_of_float NegInf = Inl OverflowError"
| "int_of_float NaN = Inl ValueError"

fun py_int :: "runtime \<Rightarrow> json \<Rightarrow> int res" where
  "py_int rt (JStr s) = int_of_str rt s"
| "py_int rt (JInt n) = Inr n"
| "py_int rt (JBool b) = Inr (if b then 1 else 0)"
| "py_int rt (JFloat f) = int_of_float f"
| "py_int rt v = Inl TypeError"

subsection \<open>True division of ints and the \<open>.1f\<close> format\<close>

fun bitlen :: "nat \<Rightarrow> nat" where
  "bitlen n = (if n = 0 then 0 else Suc (bitlen (n div 2)))"

text \<open>The quotient \<open>a / b\<close> rounded to the nearest integer, a tie going to the even one.\<close>

definition round_half_even :: "nat \<Rightarrow> nat \<Rightarrow> nat" where
  "round_half_even a b =
     (let q = a div b; r = a mod b
      in if 2 * r < b then q
         else if b < 2 * r then q + 1
         else if even q then q else q + 1)"

text \<open>
  \<open>floor_log2 a b\<close> is the integer \<open>k\<close> with \<open>2 ^ k \<le> a / b < 2 ^ (k + 1)\<close>, for
  positive \<open>a\<close> and \<open>b\<close>.
\<close>

definition floor_log2 :: "nat \<Rightarrow> nat \<Rightarrow> int" where
  "floor_log2 a b =
     (let k = int (bitlen a) - int (bitlen b)
      in if (if 0 \<le> k then b * 2 ^ nat k \<le> a else b \<le> a * 2 ^ nat (- k))
         then k else k - 1)"

text \<open>
  \<open>n / d\<close> on two ints is the double nearest to the exact quotient (ties to even):
  a mantissa of 53 bits at the exponent \<open>floor_log2 - 52\<close>, the exponent of the
  subnormal numbers being the least one, \<open>- 1074\<close>. A quotient that rounds to
  \<open>2 ^ 1024\<close> or more raises \<open>OverflowError\<close>, a zero divisor \<open>ZeroDivisionError\<close>.
\<close>

definition py_truediv :: "int \<Rightarrow> int \<Rightarrow> pyfloat res" where
  "py_truediv n d =
     (if d = 0 then Inl ZeroDivisionError
      else if n = 0 then Inr (if d < 0 then NegZero else Finite 0 0)
      else
        let a = nat \<bar>n\<bar>; b = nat \<bar>d\<bar>;
            neg = ((n < 0) \<noteq> (d < 0));
            e = max (floor_log2 a b - 52) (- 1074);
            m = (if 0 \<le> e then round_half_even a (b * 2 ^ nat e)
                 else round_half_even (a * 2 ^ nat (- e)) b)
        in if 972 \<le> e \<or> (e = 971 \<and> m = 2 ^ 53) then Inl OverflowError
           else if m = 0 then Inr (if neg then NegZero else Finite 0 0)
           else Inr (Finite (if neg then - int m else int m) e))"

text \<open>
  The decimal digits of an int, with a minus sign when negative; \<open>str(n)\<close>, and an
  f-string field \<open>{n}\<close>, give them unless the digits are over the cap.
\<close>

fun str_nat :: "nat \<Rightarrow> pystr" where
  "str_nat n = (if n < 10 then [48 + n] else str_nat (n div 10) @ [48 + n mod 10])"

definition str_int :: "int \<Rightarrow> pystr" where
  "str_int n = (if n < 0 then 45 # str_nat (nat (- n)) else str_nat (nat n))"

definition int_text :: "runtime \<Rightarrow> int \<Rightarrow> pystr res" where
  "int_text rt n =
     (if over_cap rt (length (str_nat (nat \<bar>n\<bar>))) then Inl ValueError else Inr (str_int n))"

text \<open>
  \<open>format(x, '.1f')\<close>: the exact value of the double, rounded to a whole number of
  tenths (ties to even), written with one digit after the point; the sign of the double
  is kept even when the tenths are zero.
\<close>

definition tenths :: "int \<Rightarrow> int \<Rightarrow> nat" where
  "tenths m e =
     (if 0 \<le> e then 10 * nat \<bar>m\<bar> * 2 ^ nat e
      else round_half_even (10 * nat \<bar>m\<bar>) (2 ^ nat (- e)))"

fun fmt_1f :: "pyfloat \<Rightarrow> pystr" where
  "fmt_1f (Finite m e) =
     (let k = tenths m e
      in (if m < 0 then [45] else []) @ str_nat (k div 10) @ [46] @ str_nat (k mod 10))"
| "fmt_1f NegZero = asc ''-0.0''"
| "fmt_1f PosInf = asc ''inf''"
| "fmt_1f NegInf = asc ''-inf''"
| "fmt_1f NaN = asc ''nan''"

text \<open>
  \<open>str(x)\<close>, as an f-string field without a format uses it: a str is itself; the text
  of a float and of a container comes from the runtime.
\<close>

fun py_str :: "runtime \<Rightarrow> json \<Rightarrow> pystr res" where
  "py_str rt (JStr s) = Inr s"
| "py_str rt JNull = Inr (asc ''None'')"
| "py_str rt (JBool b) = Inr (if b then asc ''True'' else asc ''False'')"
| "py_str rt (JInt n) = int_text rt n"
| "py_str rt (JFloat f) = Inr (chars (float_repr rt f))"
| "py_str rt (JList xs) = Inr (chars (container_repr rt (JList xs)))"
| "py_str rt (JObj kvs) = Inr (chars (container_repr rt (JObj kvs)))"

section \<open>Statements: output, exceptions, \<open>try\<close>\<close>

text \<open>
  A statement takes the lines printed so far (one entry for each call of \<open>print\<close>) and
  gives the lines printed after it, with either the exception it raised or its value.
  The standard output is a UTF-8 stream with the strict error handler, as Python opens
  it in a UTF-8 locale: \<open>print\<close> of a str with a lone surrogate raises
  \<open>UnicodeEncodeError\<close> and writes nothing of it. (Under the handler
  \<open>surrogateescape\<close> of the C locale the code points from \<open>DC80\<close> to \<open>DCFF\<close> are
  printed. A str without surrogate is printed under both handlers and one with the code
  point \<open>D83D\<close> under neither, which is all that the statements below rely on.)
\<close>

type_synonym 'a py = "pystr list \<Rightarrow> 'a res \<times> pystr list"

definition py_return :: "'a \<Rightarrow> 'a py" where
  "py_return v = (\<lambda>out. (Inr v, out))"

definition py_lift :: "'a res \<Rightarrow> 'a py" where
  "py_lift r = (\<lambda>out. (r, out))"

definition py_print :: "pystr \<Rightarrow> unit py" where
  "py_print line =
     (\<lambda>out. if has_surrogate line then (Inl UnicodeEncodeError, out)
            else (Inr (), out @ [line]))"

definition py_bind :: "'a py \<Rightarrow> ('a \<Rightarrow> 'b py) \<Rightarrow> 'b py" where
  "py_bind m f =
     (\<lambda>out. case m out of (Inl e, out') \<Rightarrow> (Inl e, out') | (Inr v, out') \<Rightarrow> f v out')"

text \<open>\<open>try: body  except Exception as e: handler\<close>.\<close>

definition py_try :: "'a py \<Rightarrow> (pyexn \<Rightarrow> 'a py) \<Rightarrow> 'a py" where
  "py_try body handler =
     (\<lambda>out. case body out of (Inl e, out') \<Rightarrow> handler e out' | (Inr v, out') \<Rightarrow> (Inr v, out'))"

section \<open>The client\<close>

text \<open>
  The class \<open>AmapNavigation\<close>: its three attributes, set by \<open>__init__\<close>, and its three
  methods. The entry flow \<open>main\<close> (prompts, calls in sequence) takes no part in the
  statements below and is left out.
\<close>

record client =
  api_key :: pystr
  geocode_url :: pystr
  walking_url :: pystr

definition init :: "pystr \<Rightarrow> client" where
  "init key =
     \<lparr>api_key = key,
      geocode_url = asc ''https://restapi.amap.com/v3/geocode/geo'',
      walking_url = asc ''https://restapi.amap.com/v5/direction/walking''\<rparr>"

subsection \<open>The request\<close>

text \<open>
  \<open>requests.get(url, params=params).json()\<close>. Before anything is sent, \<open>requests\<close>
  encodes every key and value of \<open>params\<close> to UTF-8 for the query string: a lone
  surrogate raises \<open>UnicodeEncodeError\<close> there. What the exchange and the JSON parser
  then yield is the runtime's.
\<close>

definition request :: "runtime \<Rightarrow> pystr \<Rightarrow> (pystr \<times> pystr) list \<Rightarrow> json res" where
  "request rt url params =
     (if list_ex (\<lambda>kv. has_surrogate (fst kv) \<or> has_surrogate (snd kv)) params
      then Inl UnicodeEncodeError
      else http_get_json rt url params)"

subsection \<open>The texts printed\<close>

text \<open>
  The literals of the source, code point by code point; in the excerpts below a
  Chinese literal is quoted by its meaning between angle brackets.
\<close>

definition msg_geocode_failed :: pystr where
  "msg_geocode_failed = [0x5730, 0x5740, 0x8F6C, 0x6362, 0x5931, 0x8D25] @ asc '': ''"

definition msg_error_info :: pystr where
  "msg_error_info = [0x9519, 0x8BEF, 0x4FE1, 0x606F] @ asc '': ''"

definition msg_geocode_exception :: pystr where
  "msg_geocode_exception = [0x5730, 0x5740, 0x8F6C, 0x6362, 0x5F02, 0x5E38] @ asc '': ''"

definition msg_walking_failed :: pystr where
  "msg_walking_failed = [0x83B7, 0x53D6, 0x6B65, 0x884C, 0x5BFC, 0x822A, 0x8DEF, 0x7EBF, 0x5931, 0x8D25]"

definition msg_walking_exception :: pystr where
  "msg_walking_exception =
     [0x83B7, 0x53D6, 0x6B65, 0x884C, 0x5BFC, 0x822A, 0x8DEF, 0x7EBF, 0x5F02, 0x5E38] @ asc '': ''"

definition msg_no_route :: pystr where
  "msg_no_route =
     [0x6CA1, 0x6709, 0x53EF, 0x7528, 0x7684, 0x6B65, 0x884C, 0x5BFC, 0x822A, 0x4FE1, 0x606F]"

definition msg_route_header :: pystr where
  "msg_route_header =
     10 # asc ''=== '' @ [0x6B65, 0x884C, 0x5BFC, 0x822A, 0x8DEF, 0x7EBF, 0x4FE1, 0x606F] @ asc '' ===''"

definition msg_total_distance :: pystr where
  "msg_total_distance = [0x603B, 0x8DDD, 0x79BB] @ asc '': ''"

definition msg_kilometres :: pystr where
  "msg_kilometres = 32 # [0x516C, 0x91CC]"

definition msg_duration :: pystr where
  "msg_duration = [0x9884, 0x8BA1, 0x8017, 0x65F6] @ asc '': ''"

definition msg_minutes :: pystr where
  "msg_minutes = 32 # [0x5206, 0x949F]"

definition msg_steps_header :: pystr where
  "msg_steps_header =
     10 # asc ''=== '' @ [0x6B65, 0x884C, 0x5BFC, 0x822A, 0x6307, 0x4EE4] @ asc '' ===''"

definition unnamed_road :: pystr where
  "unnamed_road = [0x672A, 0x547D, 0x540D, 0x9053, 0x8DEF]"

definition msg_action :: pystr where
  "msg_action = [0x52A8, 0x4F5C] @ asc '': ''"

definition msg_step :: pystr where
  "msg_step = 10 # [0x6B65, 0x9AA4] @ [32]"

definition msg_road_name :: pystr where
  "msg_road_name = asc ''  '' @ [0x9053, 0x8DEF, 0x540D, 0x79F0] @ asc '': ''"

definition msg_step_distance :: pystr where
  "msg_step_distance = asc ''  '' @ [0x8DDD, 0x79BB] @ asc '': ''"

definition msg_metres :: pystr where
  "msg_metres = 32 # [0x7C73]"

subsection \<open>\<open>geocode\<close>\<close>

text \<open>
  \<^verbatim>\<open>
  params = {'key': self.api_key, 'address': address}
  try:
      response = requests.get(self.geocode_url, params=params)
      result = response.json()
      if result['status'] == '1' and result['count'] != '0':
          location = result['geocodes'][0]['location']
          return location
      else:
          print(f"<geocoding failed>: {address}")
          print(f"<error info>: {result}")
          return None
  except Exception as e:
      print(f"<geocoding exception>: {e}")
      return None
  \<close>
  The \<open>and\<close> is evaluated from the left: the count is read only when the status is
  \<open>"1"\<close>. The value \<open>None\<close> is \<open>JNull\<close>.
\<close>

definition geocode_params :: "client \<Rightarrow> pystr \<Rightarrow> (pystr \<times> pystr) list" where
  "geocode_params self address =
     [(asc ''key'', api_key self), (asc ''address'', address)]"

definition geocode :: "runtime \<Rightarrow> client \<Rightarrow> pystr \<Rightarrow> json py" where
  "geocode rt self address =
     py_try
       (py_bind (py_lift (request rt (geocode_url self)
                   (geocode_params self address))) (\<lambda>result.
        py_bind (py_lift (getitem_key result (asc ''status''))) (\<lambda>status.
        py_bind (if status = JStr (asc ''1'')
                 then py_bind (py_lift (getitem_key result (asc ''count''))) (\<lambda>count.
                      py_return (count \<noteq> JStr (asc ''0'')))
                 else py_return False) (\<lambda>ok.
        if ok then
          py_bind (py_lift (getitem_key result (asc ''geocodes''))) (\<lambda>geocodes.
          py_bind (py_lift (getitem_0 geocodes)) (\<lambda>first.
          py_bind (py_lift (getitem_key first (asc ''location''))) (\<lambda>location.
          py_return location)))
        else
          py_bind (py_print (msg_geocode_failed @ address)) (\<lambda>_.
          py_bind (py_lift (py_str rt result)) (\<lambda>shown.
          py_bind (py_print (msg_error_info @ shown)) (\<lambda>_.
          py_return JNull)))))))
       (\<lambda>e. py_bind (py_print (msg_geocode_exception @ chars (exn_str rt e))) (\<lambda>_.
            py_return JNull))"

subsection \<open>\<open>get_walking_navigation\<close>\<close>

text \<open>
  \<^verbatim>\<open>
  params = {'key': self.api_key, 'origin': origin, 'destination': destination,
            'show_fields': 'cost,navi,polyline'}
  try:
      response = requests.get(self.walking_url, params=params)
      result = response.json()
      if result['status'] == '1':
          return result
      else:
          print(f"<route fetch failed>")
          print(f"<error info>: {result}")
          return None
  except Exception as e:
      print(f"<route fetch exception>: {e}")
      return None
  \<close>
\<close>

definition walking_params :: "client \<Rightarrow> pystr \<Rightarrow> pystr \<Rightarrow> (pystr \<times> pystr) list" where
  "walking_params self origin destination =
     [(asc ''key'', api_key self), (asc ''origin'', origin),
      (asc ''destination'', destination),
      (asc ''show_fields'', asc ''cost,navi,polyline'')]"

definition get_walking_navigation :: "runtime \<Rightarrow> client \<Rightarrow> pystr \<Rightarrow> pystr \<Rightarrow> json py" where
  "get_walking_navigation rt self origin destination =
     py_try
       (py_bind (py_lift (request rt (walking_url self)
                   (walking_params self origin destination))) (\<lambda>result.
        py_bind (py_lift (getitem_key result (asc ''status''))) (\<lambda>status.
        if status = JStr (asc ''1'') then py_return result
        else
          py_bind (py_print msg_walking_failed) (\<lambda>_.
          py_bind (py_lift (py_str rt result)) (\<lambda>shown.
          py_bind (py_print (msg_error_info @ shown)) (\<lambda>_.
          py_return JNull))))))
       (\<lambda>e. py_bind (py_print (msg_walking_exception @ chars (exn_str rt e))) (\<lambda>_.
            py_return JNull))"

subsection \<open>\<open>display_walking_navigation\<close>\<close>

text \<open>
  \<^verbatim>\<open>
  if not nav_result or 'route' not in nav_result:
      print("<no route available>")
      return
  route = nav_result['route']
  paths = route['paths'][0]
  print("\n=== <route header> ===")
  print(f"<total distance>: {int(paths['distance'])/1000:.1f} <km>")
  if 'cost' in paths:
      print(f"<estimated duration>: {int(paths['cost']['duration'])/60:.1f} <min>")
  print("\n=== <steps header> ===")
  steps = paths['steps']
  for i, step in enumerate(steps, 1):
      instruction = step['instruction']
      road_name = step.get('road_name', '<unnamed road>')
      step_distance = int(step['step_distance'])
      action_info = ""
      if 'navi' in step:
          action = step['navi'].get('action', '')
          if action:
              action_info = f"<action>: {action}"
      print(f"\n<step> {i}: {instruction}")
      print(f"  <road name>: {road_name}")
      print(f"  <distance>: {step_distance} <m>")
      if action_info:
          print(f"  {action_info}")
  \<close>
  The function has no \<open>try\<close>. An f-string is evaluated before \<open>print\<close> is called, so
  a field that raises leaves its line unprinted. First the body of the loop, then the
  loop.
\<close>

definition render_step :: "runtime \<Rightarrow> nat \<Rightarrow> json \<Rightarrow> unit py" where
  "render_step rt i step =
     py_bind (py_lift (getitem_key step (asc ''instruction''))) (\<lambda>instruction.
     py_bind (py_lift (dict_get step (asc ''road_name'') (JStr unnamed_road))) (\<lambda>road_name.
     py_bind (py_lift (getitem_key step (asc ''step_distance''))) (\<lambda>d.
     py_bind (py_lift (py_int rt d)) (\<lambda>step_distance.
     py_bind (py_lift (contains (asc ''navi'') step)) (\<lambda>has_navi.
     py_bind (if has_navi
              then py_bind (py_lift (getitem_key step (asc ''navi''))) (\<lambda>navi.
                   py_bind (py_lift (dict_get navi (asc ''action'') (JStr []))) (\<lambda>action.
                   if truthy action
                   then py_bind (py_lift (py_str rt action)) (\<lambda>shown.
                        py_return (msg_action @ shown))
                   else py_return []))
              else py_return []) (\<lambda>action_info.
     py_bind (py_lift (int_text rt (int i))) (\<lambda>number.
     py_bind (py_lift (py_str rt instruction)) (\<lambda>shown.
     py_bind (py_print (msg_step @ number @ asc '': '' @ shown)) (\<lambda>_.
     py_bind (py_lift (py_str rt road_name)) (\<lambda>shown.
     py_bind (py_print (msg_road_name @ shown)) (\<lambda>_.
     py_bind (py_lift (int_text rt step_distance)) (\<lambda>shown.
     py_bind (py_print (msg_step_distance @ shown @ msg_metres)) (\<lambda>_.
     if action_info \<noteq> [] then py_print (asc ''  '' @ action_info)
     else py_return ())))))))))))))"

fun render_steps :: "runtime \<Rightarrow> nat \<Rightarrow> json list \<Rightarrow> unit py" where
  "render_steps rt i [] = py_return ()"
| "render_steps rt i (step # rest) =
     py_bind (render_step rt i step) (\<lambda>_. render_steps rt (Suc i) rest)"

definition display_walking_navigation :: "runtime \<Rightarrow> json \<Rightarrow> unit py" where
  "display_walking_navigation rt nav_result =
     py_bind (if \<not> truthy nav_result then py_return True
              else py_bind (py_lift (contains (asc ''route'') nav_result)) (\<lambda>b.
                   py_return (\<not> b))) (\<lambda>no_route.
     if no_route then py_print msg_no_route
     else
       py_bind (py_lift (getitem_key nav_result (asc ''route''))) (\<lambda>route.
       py_bind (py_lift (getitem_key route (asc ''paths''))) (\<lambda>all_paths.
       py_bind (py_lift (getitem_0 all_paths)) (\<lambda>paths.
       py_bind (py_print msg_route_header) (\<lambda>_.
       py_bind (py_lift (getitem_key paths (asc ''distance''))) (\<lambda>distance.
       py_bind (py_lift (py_int rt distance)) (\<lambda>metres.
       py_bind (py_lift (py_truediv metres 1000)) (\<lambda>km.
       py_bind (py_print (msg_total_distance @ fmt_1f km @ msg_kilometres)) (\<lambda>_.
       py_bind (py_lift (contains (asc ''cost'') paths)) (\<lambda>has_cost.
       py_bind (if has_cost
                then py_bind (py_lift (getitem_key paths (asc ''cost''))) (\<lambda>cost.
                     py_bind (py_lift (getitem_key cost (asc ''duration''))) (\<lambda>duration.
                     py_bind (py_lift (py_int rt duration)) (\<lambda>seconds.
                     py_bind (py_lift (py_truediv seconds 60)) (\<lambda>minutes.
                     py_print (msg_duration @ fmt_1f minutes @ msg_minutes)))))
                else py_return ()) (\<lambda>_.
       py_bind (py_print msg_steps_header) (\<lambda>_.
       py_bind (py_lift (getitem_key paths (asc ''steps''))) (\<lambda>steps.
       py_bind (py_lift (py_iter steps)) (\<lambda>step_list.
       render_steps rt 1 step_list))))))))))))))"

section \<open>The specification's vocabulary\<close>

text \<open>
  The definitions of this section follow the words of the specification, not the
  source; the theorems below compare the two.
\<close>

text \<open>A call raised: its outcome is an exception, not a value.\<close>

definition raised :: "'a res \<times> pystr list \<Rightarrow> bool" where
  "raised r = (case fst r of Inl e \<Rightarrow> True | Inr v \<Rightarrow> False)"

text \<open>The field \<open>k\<close> of a JSON object, when the value is an object that has it.\<close>

definition field :: "json \<Rightarrow> pystr \<Rightarrow> json option" where
  "field v k = (case v of JObj kvs \<Rightarrow> map_of kvs k | _ \<Rightarrow> None)"

text \<open>
  A textual integer of the data model: a value that \<open>int\<close> converts (for a str, within
  the cap on its digits), the integer being below \<open>2 ^ 1024\<close> in absolute value, so that
  its quotient by 1000 or by 60 is a double. A text of the data model: a str without
  lone surrogate.
\<close>

definition quantity_ok :: "runtime \<Rightarrow> json \<Rightarrow> bool" where
  "quantity_ok rt v = (case py_int rt v of Inl e \<Rightarrow> False | Inr n \<Rightarrow> \<bar>n\<bar> < 2 ^ 1024)"

definition text_ok :: "json \<Rightarrow> bool" where
  "text_ok v = (case v of JStr s \<Rightarrow> \<not> has_surrogate s | _ \<Rightarrow> False)"

text \<open>
  A step of the data model: an object with an instruction (a text) and a
  textual-integer \<open>step_distance\<close>; the road name (a text) is optional, and so is the
  navigation-action sub-object \<open>navi\<close> (an object when present) and its \<open>action\<close> (a
  text).
\<close>

definition step_ok :: "runtime \<Rightarrow> json \<Rightarrow> bool" where
  "step_ok rt step =
     (case step of
        JObj kvs \<Rightarrow>
          (case field step (asc ''instruction'') of None \<Rightarrow> False | Some t \<Rightarrow> text_ok t)
          \<and> (case field step (asc ''road_name'') of None \<Rightarrow> True | Some t \<Rightarrow> text_ok t)
          \<and> (case field step (asc ''step_distance'') of None \<Rightarrow> False | Some d \<Rightarrow> quantity_ok rt d)
          \<and> (case field step (asc ''navi'') of
               None \<Rightarrow> True
             | Some navi \<Rightarrow>
                 (case navi of
                    JObj nkvs \<Rightarrow>
                      (case field navi (asc ''action'') of None \<Rightarrow> True | Some t \<Rightarrow> text_ok t)
                  | _ \<Rightarrow> False))
      | _ \<Rightarrow> False)"

text \<open>
  A path of the data model: an object with a textual-integer \<open>distance\<close>, an optional
  \<open>cost\<close> block (an object with a textual-integer \<open>duration\<close>) and a list of steps
  (a list has fewer than \<open>2 ^ 63\<close> elements).
\<close>

definition path_ok :: "runtime \<Rightarrow> json \<Rightarrow> bool" where
  "path_ok rt path =
     (case path of
        JObj kvs \<Rightarrow>
          (case field path (asc ''distance'') of None \<Rightarrow> False | Some d \<Rightarrow> quantity_ok rt d)
          \<and> (case field path (asc ''cost'') of
               None \<Rightarrow> True
             | Some cost \<Rightarrow>
                 (case cost of
                    JObj ckvs \<Rightarrow>
                      (case field cost (asc ''duration'') of
                         None \<Rightarrow> False
                       | Some d \<Rightarrow> quantity_ok rt d)
                  | _ \<Rightarrow> False))
          \<and> (case field path (asc ''steps'') of
               Some (JList steps) \<Rightarrow> list_all (step_ok rt) steps \<and> length steps < 2 ^ 63
             | _ \<Rightarrow> False)
      | _ \<Rightarrow> False)"

text \<open>The first entry of \<open>route.paths\<close> of a route result.\<close>

definition first_path :: "json \<Rightarrow> json option" where
  "first_path nav =
     (case nav of
        JObj kvs \<Rightarrow>
          (case field nav (asc ''route'') of
             Some (JObj rkvs) \<Rightarrow>
               (case map_of rkvs (asc ''paths'') of
                  Some (JList (p # ps)) \<Rightarrow> Some p
                | _ \<Rightarrow> None)
           | _ \<Rightarrow> None)
      | _ \<Rightarrow> None)"

text \<open>
  The lines of the rendering, as the specification words them: \<open>int_at rt v k\<close> is the
  integer in field \<open>k\<close>, \<open>one_decimal n d\<close> the text of \<open>n / d\<close> with one decimal place.
\<close>

definition int_at :: "runtime \<Rightarrow> json \<Rightarrow> pystr \<Rightarrow> int" where
  "int_at rt v k =
     (case field v k of
        None \<Rightarrow> 0
      | Some d \<Rightarrow> (case py_int rt d of Inl e \<Rightarrow> 0 | Inr n \<Rightarrow> n))"

definition one_decimal :: "int \<Rightarrow> int \<Rightarrow> pystr" where
  "one_decimal n d = (case py_truediv n d of Inl e \<Rightarrow> [] | Inr x \<Rightarrow> fmt_1f x)"

definition distance_line :: "runtime \<Rightarrow> json \<Rightarrow> pystr" where
  "distance_line rt path =
     msg_total_distance @ one_decimal (int_at rt path (asc ''distance'')) 1000 @ msg_kilometres"

definition duration_lines :: "runtime \<Rightarrow> json \<Rightarrow> pystr list" where
  "duration_lines rt path =
     (case field path (asc ''cost'') of
        None \<Rightarrow> []
      | Some cost \<Rightarrow>
          [msg_duration @ one_decimal (int_at rt cost (asc ''duration'')) 60 @ msg_minutes])"

text \<open>
  The action of a step: the \<open>action\<close> field of its \<open>navi\<close> sub-object. An action line is
  printed for an action that is present and not empty (for a str the truth value
  \<open>truthy\<close> is exactly non-emptiness). \<open>text_of v\<close> is the text of a field that is a str.
\<close>

definition action_of :: "json \<Rightarrow> json option" where
  "action_of step =
     (case field step (asc ''navi'') of
        None \<Rightarrow> None
      | Some navi \<Rightarrow> field navi (asc ''action''))"

definition text_of :: "json \<Rightarrow> pystr" where
  "text_of v = (case v of JStr s \<Rightarrow> s | _ \<Rightarrow> [])"

definition action_lines :: "json \<Rightarrow> pystr list" where
  "action_lines step =
     (case action_of step of
        None \<Rightarrow> []
      | Some action \<Rightarrow>
          if truthy action then [asc ''  '' @ msg_action @ text_of action] else [])"

definition road_name_of :: "json \<Rightarrow> pystr" where
  "road_name_of step =
     (case field step (asc ''road_name'') of
        None \<Rightarrow> unnamed_road
      | Some name \<Rightarrow> text_of name)"

definition instruction_of :: "json \<Rightarrow> pystr" where
  "instruction_of step =
     (case field step (asc ''instruction'') of None \<Rightarrow> [] | Some instr \<Rightarrow> text_of instr)"

definition step_block :: "runtime \<Rightarrow> nat \<Rightarrow> json \<Rightarrow> pystr list" where
  "step_block rt i step =
     [msg_step @ str_int (int i) @ asc '': '' @ instruction_of step,
      msg_road_name @ road_name_of step,
      msg_step_distance @ str_int (int_at rt step (asc ''step_distance'')) @ msg_metres]
     @ action_lines step"

text \<open>The blocks of all steps, in the order of the list, the first one numbered \<open>i\<close>.\<close>

definition step_blocks :: "runtime \<Rightarrow> nat \<Rightarrow> json list \<Rightarrow> pystr list" where
  "step_blocks rt i steps =
     concat (map (\<lambda>k. step_block rt (i + k) (steps ! k)) [0..<length steps])"

definition steps_of :: "json \<Rightarrow> json list" where
  "steps_of path = (case field path (asc ''steps'') of Some (JList steps) \<Rightarrow> steps | _ \<Rightarrow> [])"

definition route_lines :: "runtime \<Rightarrow> json \<Rightarrow> pystr list" where
  "route_lines rt path =
     [msg_route_header, distance_line rt path] @ duration_lines rt path
     @ [msg_steps_header] @ step_blocks rt 1 (steps_of path)"

definition is_duration_line :: "pystr \<Rightarrow> bool" where
  "is_duration_line line = starts_with msg_duration line"

text \<open>The top-level \<open>status\<close> field of a response body equals the string \<open>"1"\<close>.\<close>

definition status_is_1 :: "json \<Rightarrow> bool" where
  "status_is_1 body =
     (case field body (asc ''status'') of
        None \<Rightarrow> False
      | Some status \<Rightarrow> status = JStr (asc ''1''))"

text \<open>
  A geocoding response that carries a status and is not a success: the status is not
  \<open>"1"\<close>, or the count is \<open>"0"\<close>.
\<close>

definition geocode_rejected :: "json \<Rightarrow> bool" where
  "geocode_rejected body =
     (case field body (asc ''status'') of
        None \<Rightarrow> False
      | Some status \<Rightarrow>
          status \<noteq> JStr (asc ''1'') \<or> field body (asc ''count'') = Some (JStr (asc ''0'')))"

text \<open>
  A runtime for evaluating the client at concrete inputs: every request gets the given
  outcome, no code point from 127 on is a space or a digit, the cap on digits is the
  default one.
\<close>

definition canned_runtime :: "json res \<Rightarrow> runtime" where
  "canned_runtime response =
     \<lparr>http_get_json = (\<lambda>url params. response),
      exn_str = (\<lambda>e. ascii_text ''error''),
      float_repr = (\<lambda>f. ascii_text ''float''),
      container_repr = (\<lambda>v. ascii_text ''container''),
      unicode_isspace = (\<lambda>c. False),
      unicode_todecimal = (\<lambda>c. None),
      max_str_digits = 4300\<rparr>"

section \<open>Helper lemmas\<close>

declare bitlen.simps [simp del]
declare str_nat.simps [simp del]

lemmas py_defs = py_bind_def py_lift_def py_return_def py_print_def py_try_def

lemma asc_eq_iff: "asc a = asc b \<longleftrightarrow> a = b"
  by (simp add: asc_def inj_map_eq_map inj_def)

subsection \<open>What can be printed\<close>

lemma has_surrogate_Nil: "\<not> has_surrogate []"
  by (simp add: has_surrogate_def)

lemma has_surrogate_Cons: "has_surrogate (c # cs) \<longleftrightarrow> is_surrogate c \<or> has_surrogate cs"
  by (simp add: has_surrogate_def)

lemma has_surrogate_append:
  "has_surrogate (a @ b) \<longleftrightarrow> has_surrogate a \<or> has_surrogate b"
  by (simp add: has_surrogate_def)

lemma chars_clean: "\<not> has_surrogate (chars t)"
  using chars [of t] by simp

lemma asc_clean: "\<not> has_surrogate (asc s)"
  using chars_clean [of "ascii_text s"] by (simp add: ascii_text.rep_eq)

lemma msgs_clean:
  "\<not> has_surrogate msg_geocode_failed" "\<not> has_surrogate msg_error_info"
  "\<not> has_surrogate msg_geocode_exception" "\<not> has_surrogate msg_walking_failed"
  "\<not> has_surrogate msg_walking_exception" "\<not> has_surrogate msg_no_route"
  "\<not> has_surrogate msg_route_header" "\<not> has_surrogate msg_total_distance"
  "\<not> has_surrogate msg_kilometres" "\<not> has_surrogate msg_duration"
  "\<not> has_surrogate msg_minutes" "\<not> has_surrogate msg_steps_header"
  "\<not> has_surrogate unnamed_road" "\<not> has_surrogate msg_action"
  "\<not> has_surrogate msg_step" "\<not> has_surrogate msg_road_name"
  "\<not> has_surrogate msg_step_distance" "\<not> has_surrogate msg_metres"
  by (simp_all add: has_surrogate_append has_surrogate_Cons has_surrogate_Nil asc_clean
      is_surrogate_def msg_geocode_failed_def msg_error_info_def msg_geocode_exception_def
      msg_walking_failed_def msg_walking_exception_def msg_no_route_def msg_route_header_def
      msg_total_distance_def msg_kilometres_def msg_duration_def msg_minutes_def
      msg_steps_header_def unnamed_road_def msg_action_def msg_step_def msg_road_name_def
      msg_step_distance_def msg_metres_def)

lemma str_nat_clean: "\<not> has_surrogate (str_nat n)"
proof (induction n rule: str_nat.induct)
  case (1 n)
  show ?case
  proof (cases "n < 10")
    case True
    then show ?thesis
      by (subst str_nat.simps)
         (simp add: has_surrogate_Cons has_surrogate_Nil is_surrogate_def)
  next
    case False
    have "n mod 10 < 10" by simp
    with False "1.IH" show ?thesis
      by (subst str_nat.simps)
         (simp add: has_surrogate_append has_surrogate_Cons has_surrogate_Nil is_surrogate_def)
  qed
qed

lemma str_int_clean: "\<not> has_surrogate (str_int n)"
  by (simp add: str_int_def has_surrogate_Cons str_nat_clean is_surrogate_def)

lemma fmt_1f_clean: "\<not> has_surrogate (fmt_1f x)"
  by (cases x)
     (simp_all add: Let_def has_surrogate_append has_surrogate_Cons has_surrogate_Nil
        str_nat_clean asc_clean is_surrogate_def)

lemma one_decimal_clean: "\<not> has_surrogate (one_decimal n d)"
  by (simp add: one_decimal_def fmt_1f_clean has_surrogate_Nil split: sum.splits)

lemmas clean = has_surrogate_append has_surrogate_Nil chars_clean asc_clean msgs_clean
  str_nat_clean str_int_clean fmt_1f_clean one_decimal_clean

subsection \<open>The cap on digits\<close>

lemma length_str_nat: "0 < k \<Longrightarrow> n < 10 ^ k \<Longrightarrow> length (str_nat n) \<le> k"
proof (induction k arbitrary: n)
  case 0
  then show ?case by simp
next
  case (Suc k)
  show ?case
  proof (cases "n < 10")
    case True
    then show ?thesis by (subst str_nat.simps) simp
  next
    case False
    with Suc.prems have k: "0 < k" by (cases k) simp_all
    from Suc.prems have "n div 10 < 10 ^ k" by (simp add: less_mult_imp_div_less mult.commute)
    with k have "length (str_nat (n div 10)) \<le> k" by (rule Suc.IH)
    with False show ?thesis by (subst str_nat.simps) simp
  qed
qed

lemma int_of_str_over_cap:
  assumes "over_cap rt (length (filter is_digit (strip (map (to_ascii rt) s))))"
  shows "int_of_str rt s = Inl ValueError"
  using assms by (simp add: int_of_str_def Let_def split: option.splits)

lemma int_text_small:
  assumes "\<bar>n\<bar> < 2 ^ 1024"
  shows "int_text rt n = Inr (str_int n)"
proof -
  have "nat \<bar>n\<bar> < 2 ^ 1024" using assms by (simp add: nat_less_iff)
  also have "(2::nat) ^ 1024 < 10 ^ 640" by simp
  finally have "length (str_nat (nat \<bar>n\<bar>)) \<le> 640"
    by (intro length_str_nat) simp_all
  then show ?thesis by (simp add: int_text_def over_cap_def)
qed

lemma int_text_index:
  assumes "i < 2 ^ 64"
  shows "int_text rt (int i) = Inr (str_int (int i))"
proof -
  have "\<bar>int i\<bar> < 2 ^ 64" using assms by (simp add: nat_less_iff of_nat_less_iff [symmetric] del: of_nat_less_iff)
  also have "(2::int) ^ 64 < 2 ^ 1024" by simp
  finally show ?thesis by (rule int_text_small)
qed

subsection \<open>The two fetch operations\<close>

lemma py_try_absorbs:
  assumes "\<And>e out'. \<not> raised (handler e out')"
  shows "\<not> raised (py_try body handler out)"
proof (cases "body out")
  case (Pair r out')
  show ?thesis
  proof (cases r)
    case (Inl e)
    with Pair assms [of e out'] show ?thesis by (simp add: py_try_def)
  next
    case (Inr v)
    with Pair show ?thesis by (simp add: py_try_def raised_def)
  qed
qed

lemma geocode_never_raises: "\<not> raised (geocode rt self address out)"
  unfolding geocode_def by (rule py_try_absorbs) (simp add: py_defs raised_def clean)

lemma walking_never_raises: "\<not> raised (get_walking_navigation rt self origin destination out)"
  unfolding get_walking_navigation_def
  by (rule py_try_absorbs) (simp add: py_defs raised_def clean)

lemma request_sent:
  assumes "request rt url params = Inr body" and "kv \<in> set params"
  shows "\<not> has_surrogate (snd kv)"
  using assms by (auto simp add: request_def list_ex_iff split: if_splits)

lemma geocode_on_rejected:
  assumes "request rt (geocode_url self) (geocode_params self address) = Inr body"
    and "geocode_rejected body"
  shows "geocode rt self address out =
           (Inr JNull, out @ [msg_geocode_failed @ address,
                              msg_error_info @ chars (container_repr rt body)])"
proof -
  have "\<not> has_surrogate (snd (asc ''address'', address))"
    using assms(1) by (rule request_sent) (simp add: geocode_params_def)
  then have address: "\<not> has_surrogate address" by simp
  from assms address show ?thesis
    by (cases body)
       (auto simp add: geocode_def py_defs geocode_rejected_def field_def clean
          split: option.splits)
qed

lemma geocode_on_exception:
  assumes "request rt (geocode_url self) (geocode_params self address) = Inl e"
  shows "geocode rt self address out =
           (Inr JNull, out @ [msg_geocode_exception @ chars (exn_str rt e)])"
  using assms by (simp add: geocode_def py_defs clean)

lemma walking_on_success:
  assumes "request rt (walking_url self) (walking_params self origin destination) = Inr body"
    and "status_is_1 body"
  shows "get_walking_navigation rt self origin destination out = (Inr body, out)"
  using assms
  by (cases body)
     (simp_all add: get_walking_navigation_def py_defs status_is_1_def field_def
        split: option.splits)

lemma walking_on_failure:
  assumes "request rt (walking_url self) (walking_params self origin destination) = Inr body"
    and "\<not> status_is_1 body"
  shows "fst (get_walking_navigation rt self origin destination out) = Inr JNull"
  using assms
  by (cases body)
     (simp_all add: get_walking_navigation_def py_defs status_is_1_def field_def clean
        split: option.splits)

lemma walking_on_exception:
  assumes "request rt (walking_url self) (walking_params self origin destination) = Inl e"
  shows "get_walking_navigation rt self origin destination out =
           (Inr JNull, out @ [msg_walking_exception @ chars (exn_str rt e)])"
  using assms by (simp add: get_walking_navigation_def py_defs clean)

subsection \<open>The rendering\<close>

lemma display_no_route:
  assumes "\<not> truthy nav \<or> (\<exists>kvs. nav = JObj kvs \<and> map_of kvs (asc ''route'') = None)"
  shows "display_walking_navigation rt nav out = (Inr (), out @ [msg_no_route])"
  using assms by (auto simp add: display_walking_navigation_def py_defs clean)

lemma msg_action_nonempty: "msg_action \<noteq> []"
  by (simp add: msg_action_def)

lemma text_ok_iff: "text_ok v \<longleftrightarrow> (\<exists>s. v = JStr s \<and> \<not> has_surrogate s)"
  by (cases v) (simp_all add: text_ok_def)

lemma py_bind_value: "py_bind (py_lift (Inr v)) f = f v"
  by (rule ext) (simp add: py_bind_def py_lift_def)

lemma py_bind_return: "py_bind (py_return v) f = f v"
  by (rule ext) (simp add: py_bind_def py_return_def)

lemma py_bind_print:
  "py_bind (py_print line) f out =
     (if has_surrogate line then (Inl UnicodeEncodeError, out) else f () (out @ [line]))"
  by (simp add: py_bind_def py_print_def)

lemma py_print_maybe:
  "(if c then py_print line else py_return ()) out =
     (if c \<and> has_surrogate line then (Inl UnicodeEncodeError, out)
      else (Inr (), out @ (if c then [line] else [])))"
  by (simp add: py_print_def py_return_def)

lemma py_print_maybe_Pair:
  "(if c then py_print line else Pair (Inr ())) out =
     (if c \<and> has_surrogate line then (Inl UnicodeEncodeError, out)
      else (Inr (), out @ (if c then [line] else [])))"
  by (simp add: py_print_def)

lemma py_return_apply: "py_return v out = (Inr v, out)"
  by (simp add: py_return_def)

lemma py_bind_Pair: "py_bind (Pair (Inr v)) f = f v"
  by (rule ext) (simp add: py_bind_def)

lemmas py_laws = py_bind_value py_bind_return py_bind_Pair py_bind_print py_print_maybe
  py_print_maybe_Pair py_return_apply

lemma render_step_ok:
  assumes "step_ok rt step" and "i < 2 ^ 64"
  shows "render_step rt i step out = (Inr (), out @ step_block rt i step)"
proof -
  from assms(1) obtain kvs where step: "step = JObj kvs"
    by (cases step) (simp_all add: step_ok_def)
  from assms(1) step obtain instr where instr: "map_of kvs (asc ''instruction'') = Some instr"
    and "text_ok instr"
    by (auto simp add: step_ok_def field_def split: option.splits)
  then obtain si where si: "instr = JStr si" "\<not> has_surrogate si"
    by (auto simp add: text_ok_iff)
  from assms(1) step obtain d n where d: "map_of kvs (asc ''step_distance'') = Some d"
    and n: "py_int rt d = Inr n" and bound: "\<bar>n\<bar> < 2 ^ 1024"
    by (auto simp add: step_ok_def field_def quantity_ok_def split: option.splits sum.splits)
  note number = int_text_index [OF assms(2), of rt] int_text_small [OF bound, of rt]
  have road: "\<not> has_surrogate (road_name_of step)"
    and road_run: "py_str rt (case map_of kvs (asc ''road_name'') of
                                None \<Rightarrow> JStr unnamed_road | Some v \<Rightarrow> v)
                   = Inr (road_name_of step)"
    using assms(1) step
    by (auto simp add: step_ok_def field_def road_name_of_def text_ok_iff text_of_def clean
        split: option.splits)
  show ?thesis
  proof (cases "map_of kvs (asc ''navi'')")
    case None
    with step instr si d n number road road_run show ?thesis
      unfolding render_step_def
      by (simp add: py_laws clean step_block_def instruction_of_def int_at_def
          action_lines_def action_of_def field_def text_of_def)
  next
    case (Some navi)
    with assms(1) step obtain nkvs where nkvs: "navi = JObj nkvs"
      and action: "case map_of nkvs (asc ''action'') of None \<Rightarrow> True | Some a \<Rightarrow> text_ok a"
      by (cases navi) (auto simp add: step_ok_def field_def)
    then consider (no_action) "map_of nkvs (asc ''action'') = None"
      | (action) sa where "map_of nkvs (asc ''action'') = Some (JStr sa)"
          and "\<not> has_surrogate sa"
      by (auto simp add: text_ok_iff split: option.splits)
    then show ?thesis
    proof cases
      case no_action
      with Some nkvs step instr si d n number road road_run show ?thesis
        unfolding render_step_def
        by (simp add: py_laws clean step_block_def instruction_of_def int_at_def
            action_lines_def action_of_def field_def text_of_def)
    next
      case action
      with Some nkvs step instr si d n number road road_run show ?thesis
        unfolding render_step_def
        by (simp add: py_laws clean step_block_def instruction_of_def int_at_def
            action_lines_def action_of_def field_def text_of_def msg_action_nonempty)
    qed
  qed
qed

lemma upt_0_Suc: "[0..<Suc n] = 0 # map Suc [0..<n]"
proof -
  have "[0..<Suc n] = 0 # [Suc 0..<Suc n]"
    by (rule upt_conv_Cons) simp
  also have "[Suc 0..<Suc n] = map Suc [0..<n]"
    by (rule map_Suc_upt [symmetric])
  finally show ?thesis .
qed

lemma step_blocks_Nil: "step_blocks rt i [] = []"
  by (simp add: step_blocks_def)

lemma step_blocks_Cons:
  "step_blocks rt i (s # ss) = step_block rt i s @ step_blocks rt (Suc i) ss"
  by (simp add: step_blocks_def upt_0_Suc comp_def del: upt_Suc)

lemma render_steps_ok:
  "list_all (step_ok rt) steps \<Longrightarrow> i + length steps \<le> 2 ^ 64 \<Longrightarrow>
     render_steps rt i steps out = (Inr (), out @ step_blocks rt i steps)"
proof (induction steps arbitrary: i out)
  case Nil
  show ?case by (simp add: py_defs step_blocks_Nil)
next
  case (Cons s ss)
  then have s: "step_ok rt s" and ss: "list_all (step_ok rt) ss" by simp_all
  from Cons.prems(2) have i: "i < 2 ^ 64" and rest: "Suc i + length ss \<le> 2 ^ 64" by simp_all
  show ?case
    by (simp add: py_bind_def render_step_ok [OF s i] Cons.IH [OF ss rest] step_blocks_Cons)
qed

subsection \<open>True division is defined\<close>

lemma bitlen_le: "n < 2 ^ k \<Longrightarrow> bitlen n \<le> k"
proof (induction k arbitrary: n)
  case 0
  then show ?case by (simp add: bitlen.simps)
next
  case (Suc k)
  show ?case
  proof (cases "n = 0")
    case True
    then show ?thesis by (simp add: bitlen.simps)
  next
    case False
    from Suc.prems have "n div 2 < 2 ^ k" by simp
    then have "bitlen (n div 2) \<le> k" by (rule Suc.IH)
    with False show ?thesis by (subst bitlen.simps) simp
  qed
qed

lemma bitlen_60: "bitlen 60 = 6"
  by code_simp

lemma bitlen_1000: "bitlen 1000 = 10"
  by code_simp

lemma floor_log2_le: "floor_log2 a b \<le> int (bitlen a) - int (bitlen b)"
  by (simp add: floor_log2_def Let_def)

lemma py_truediv_no_overflow:
  assumes "d \<noteq> 0" and "e = max (floor_log2 (nat \<bar>n\<bar>) (nat \<bar>d\<bar>) - 52) (- 1074)"
    and "e < 971"
  shows "\<exists>x. py_truediv n d = Inr x"
proof (cases "n = 0")
  case True
  with assms(1) show ?thesis by (simp add: py_truediv_def)
next
  case False
  have "\<not> 972 \<le> e" and "e \<noteq> 971" using assms(3) by simp_all
  with False assms(1) show ?thesis
    unfolding py_truediv_def Let_def assms(2) [symmetric] by simp
qed

lemma py_truediv_defined:
  assumes "\<bar>n\<bar> < 2 ^ 1024" and "d = 60 \<or> d = 1000"
  shows "\<exists>x. py_truediv n d = Inr x"
proof -
  have "nat \<bar>n\<bar> < 2 ^ 1024"
    using assms(1) by (simp add: nat_less_iff)
  then have "bitlen (nat \<bar>n\<bar>) \<le> 1024" by (rule bitlen_le)
  moreover have "6 \<le> bitlen (nat \<bar>d\<bar>)"
    using assms(2) by (auto simp add: bitlen_60 bitlen_1000)
  ultimately have "floor_log2 (nat \<bar>n\<bar>) (nat \<bar>d\<bar>) \<le> 1018"
    using floor_log2_le [of "nat \<bar>n\<bar>" "nat \<bar>d\<bar>"] by linarith
  then have "max (floor_log2 (nat \<bar>n\<bar>) (nat \<bar>d\<bar>) - 52) (- 1074) < 971" by simp
  moreover have "d \<noteq> 0" using assms(2) by auto
  ultimately show ?thesis
    by (intro py_truediv_no_overflow
          [where e = "max (floor_log2 (nat \<bar>n\<bar>) (nat \<bar>d\<bar>) - 52) (- 1074)"]) simp_all
qed

lemma display_ok:
  assumes "first_path nav = Some path" and "path_ok rt path"
  shows "display_walking_navigation rt nav out = (Inr (), out @ route_lines rt path)"
proof -
  from assms(1) obtain kvs rkvs ps where nav: "nav = JObj kvs"
    and route: "map_of kvs (asc ''route'') = Some (JObj rkvs)"
    and paths: "map_of rkvs (asc ''paths'') = Some (JList (path # ps))"
    by (auto simp add: first_path_def field_def split: json.splits option.splits list.splits)
  from assms(2) obtain pkvs where path: "path = JObj pkvs"
    by (cases path) (simp_all add: path_ok_def)
  from assms(2) path obtain d n where d: "map_of pkvs (asc ''distance'') = Some d"
    and n: "py_int rt d = Inr n" and bound: "\<bar>n\<bar> < 2 ^ 1024"
    by (auto simp add: path_ok_def field_def quantity_ok_def split: option.splits sum.splits)
  from bound obtain km where km: "py_truediv n 1000 = Inr km"
    using py_truediv_defined [of n 1000] by auto
  from assms(2) path obtain steps where steps: "map_of pkvs (asc ''steps'') = Some (JList steps)"
    and ok: "list_all (step_ok rt) steps" and len: "length steps < 2 ^ 63"
    by (auto simp add: path_ok_def field_def split: option.splits json.splits)
  from len have "Suc 0 + length steps \<le> 2 ^ 64" by simp
  note run = render_steps_ok [OF ok this]
  from route nav have truthy: "truthy nav" by auto
  show ?thesis
  proof (cases "map_of pkvs (asc ''cost'')")
    case None
    with nav route paths path d n km steps truthy show ?thesis
      by (simp add: display_walking_navigation_def py_defs run clean
          route_lines_def distance_line_def duration_lines_def int_at_def one_decimal_def
          steps_of_def field_def)
  next
    case (Some cost)
    with assms(2) path obtain ckvs where cost: "cost = JObj ckvs"
      by (cases cost) (simp_all add: path_ok_def field_def)
    from assms(2) path Some cost obtain sd s where sd: "map_of ckvs (asc ''duration'') = Some sd"
      and s: "py_int rt sd = Inr s" and sbound: "\<bar>s\<bar> < 2 ^ 1024"
      by (auto simp add: path_ok_def field_def quantity_ok_def split: option.splits sum.splits)
    from sbound obtain mins where mins: "py_truediv s 60 = Inr mins"
      using py_truediv_defined [of s 60] by auto
    from Some cost sd s mins nav route paths path d n km steps truthy show ?thesis
      by (simp add: display_walking_navigation_def py_defs run clean
          route_lines_def distance_line_def duration_lines_def int_at_def one_decimal_def
          steps_of_def field_def)
  qed
qed

text \<open>One decimal place: the rounding of the quotient and of its tenths.\<close>

lemma round_half_even_bounds:
  assumes "0 < b"
  shows "2 * (round_half_even a b * b) \<le> 2 * a + b"
    and "2 * a \<le> 2 * (round_half_even a b * b) + b"
proof -
  define q r x where "q = a div b" and "r = a mod b" and "x = round_half_even a b"
  have a: "a = q * b + r" and r: "r < b"
    using assms by (simp_all add: q_def r_def)
  have "x = (if 2 * r < b then q else if b < 2 * r then q + 1 else if even q then q else q + 1)"
    by (simp add: x_def round_half_even_def Let_def q_def r_def)
  then consider (down) "2 * r \<le> b" and "x = q" | (up) "b \<le> 2 * r" and "x = q + 1"
    by (auto split: if_splits)
  then have "2 * (x * b) \<le> 2 * a + b \<and> 2 * a \<le> 2 * (x * b) + b"
  proof cases
    case down
    with a r show ?thesis by simp
  next
    case up
    have "(q + 1) * b = q * b + b" by (simp add: algebra_simps)
    with up a r show ?thesis by simp
  qed
  then show "2 * (round_half_even a b * b) \<le> 2 * a + b"
    and "2 * a \<le> 2 * (round_half_even a b * b) + b"
    by (simp_all add: x_def)
qed

lemma tenths_within_half:
  fixes a c k m P :: nat
  assumes P: "10 * c < P"
    and m1: "2 * (m * (20 * c)) \<le> 2 * (a * P) + 20 * c"
    and m2: "2 * (a * P) \<le> 2 * (m * (20 * c)) + 20 * c"
    and k1: "2 * (k * P) \<le> 20 * m + P"
    and k2: "20 * m \<le> 2 * (k * P) + P"
  shows "2 * c * k \<le> a + c \<and> a \<le> 2 * c * k + c"
proof (intro conjI)
  have ck1: "c * (2 * (k * P)) \<le> c * (20 * m + P)"
    using k1 by (rule mult_le_mono2)
  have ck2: "c * (20 * m) \<le> c * (2 * (k * P) + P)"
    using k2 by (rule mult_le_mono2)
  show "2 * c * k \<le> a + c"
  proof (rule ccontr)
    assume "\<not> 2 * c * k \<le> a + c"
    then have "a + c + 1 \<le> 2 * c * k" by simp
    then have "(a + c + 1) * P \<le> (2 * c * k) * P" by (rule mult_le_mono1)
    with ck1 m1 P show False by (simp add: algebra_simps)
  qed
  show "a \<le> 2 * c * k + c"
  proof (rule ccontr)
    assume "\<not> a \<le> 2 * c * k + c"
    then have "2 * c * k + c + 1 \<le> a" by simp
    then have "(2 * c * k + c + 1) * P \<le> a * P" by (rule mult_le_mono1)
    with ck2 m2 P show False by (simp add: algebra_simps)
  qed
qed

lemma one_decimal_zero:
  assumes "0 < d"
  shows "one_decimal 0 d = str_nat (0 div 10) @ [46] @ str_nat (0 mod 10)"
  using assms by (simp add: one_decimal_def py_truediv_def tenths_def)

lemma one_decimal_close_aux:
  fixes c :: nat
  assumes n: "\<bar>n\<bar> < 2 ^ 53" and n0: "n \<noteq> 0" and d: "d = 20 * int c" and c: "0 < c"
    and wide: "10 * c < 2 ^ (bitlen (20 * c) - 1)"
    and len: "2 \<le> bitlen (20 * c) \<and> bitlen (20 * c) \<le> 1075"
  shows "\<exists>k. one_decimal n d =
               (if n < 0 then [45] else []) @ str_nat (k div 10) @ [46] @ str_nat (k mod 10)
             \<and> 2 * c * k \<le> nat \<bar>n\<bar> + c \<and> nat \<bar>n\<bar> \<le> 2 * c * k + c"
proof -
  define a b where "a = nat \<bar>n\<bar>" and "b = nat \<bar>d\<bar>"
  define e where "e = max (floor_log2 a b - 52) (- 1074)"
  define P :: nat where "P = 2 ^ nat (- e)"
  define m where "m = round_half_even (a * P) b"
  define k where "k = round_half_even (10 * m) P"
  have b: "b = 20 * c" using d by (simp add: b_def nat_mult_distrib)
  have a_pos: "0 < a" using n0 by (simp add: a_def)
  have b_pos: "0 < b" using b c by simp
  have d_pos: "0 < d" using d c by simp
  have "a < 2 ^ 53" using n by (simp add: a_def nat_less_iff)
  then have "bitlen a \<le> 53" by (rule bitlen_le)
  with floor_log2_le [of a b] have "floor_log2 a b - 52 \<le> 1 - int (bitlen b)" by linarith
  moreover have "2 \<le> bitlen b" and "bitlen b \<le> 1075"
    using len b by simp_all
  ultimately have e_le: "e \<le> 1 - int (bitlen b)" and e_neg: "e < 0"
    by (simp_all add: e_def)
  then have "bitlen b - 1 \<le> nat (- e)" by linarith
  then have pw: "(2::nat) ^ (bitlen b - 1) \<le> 2 ^ nat (- e)"
    by (rule power_increasing) simp
  have "10 * c < 2 ^ (bitlen b - 1)"
    using wide unfolding b .
  then have P: "10 * c < P"
    unfolding P_def using pw by (rule less_le_trans)
  have P_pos: "0 < P" by (simp add: P_def)
  have m1: "2 * (m * (20 * c)) \<le> 2 * (a * P) + 20 * c"
    and m2: "2 * (a * P) \<le> 2 * (m * (20 * c)) + 20 * c"
    using round_half_even_bounds [OF b_pos, of "a * P"] by (simp_all add: m_def b)
  have k1: "2 * (k * P) \<le> 20 * m + P" and k2: "20 * m \<le> 2 * (k * P) + P"
    using round_half_even_bounds [OF P_pos, of "10 * m"] by (simp_all add: k_def)
  have close: "2 * c * k \<le> a + c \<and> a \<le> 2 * c * k + c"
    using P m1 m2 k1 k2 by (rule tenths_within_half)
  have m_pos: "m \<noteq> 0"
  proof
    assume "m = 0"
    with m2 have "a * P \<le> 10 * c" by (simp add: mult.commute)
    moreover have "1 * P \<le> a * P"
      using a_pos by (intro mult_le_mono1) simp
    ultimately show False using P by simp
  qed
  have m_not_top: "\<not> (972 \<le> e \<or> (e = 971 \<and> m = 2 ^ 53))"
    using e_neg by simp
  have quotient: "py_truediv n d = Inr (Finite (if n < 0 then - int m else int m) e)"
    using n0 d_pos e_neg m_pos m_not_top
    unfolding py_truediv_def Let_def a_def [symmetric] b_def [symmetric] e_def [symmetric]
      m_def P_def
    by (auto simp add: not_le)
  have "tenths (if n < 0 then - int m else int m) e = k"
    using e_neg by (simp add: tenths_def k_def P_def)
  with quotient m_pos
  have "one_decimal n d =
          (if n < 0 then [45] else []) @ str_nat (k div 10) @ [46] @ str_nat (k mod 10)"
    by (simp add: one_decimal_def Let_def)
  with close show ?thesis
    unfolding a_def by blast
qed

lemma wide_60: "10 * 3 < (2::nat) ^ (bitlen (20 * 3) - 1)"
  by code_simp

lemma wide_1000: "10 * 50 < (2::nat) ^ (bitlen (20 * 50) - 1)"
  by code_simp

lemma len_60: "2 \<le> bitlen (20 * 3) \<and> bitlen (20 * 3) \<le> 1075"
  by code_simp

lemma len_1000: "2 \<le> bitlen (20 * 50) \<and> bitlen (20 * 50) \<le> 1075"
  by code_simp

lemma one_decimal_close:
  assumes "\<bar>n\<bar> < 2 ^ 53" and "d = 60 \<or> d = 1000"
  shows "\<exists>k. one_decimal n d =
               (if n < 0 then [45] else []) @ str_nat (k div 10) @ [46] @ str_nat (k mod 10)
             \<and> 2 * \<bar>d * int k - 10 * \<bar>n\<bar>\<bar> \<le> d"
proof (cases "n = 0")
  case True
  have "0 < d" using assms(2) by auto
  from one_decimal_zero [OF this] True assms(2) show ?thesis
    by (intro exI [of _ 0]) auto
next
  case False
  from assms(2) show ?thesis
  proof
    assume d: "d = 60"
    then have "d = 20 * int 3" by simp
    from one_decimal_close_aux [OF assms(1) False this _ wide_60 len_60]
    obtain k where "one_decimal n d =
               (if n < 0 then [45] else []) @ str_nat (k div 10) @ [46] @ str_nat (k mod 10)"
      and "2 * 3 * k \<le> nat \<bar>n\<bar> + 3" and "nat \<bar>n\<bar> \<le> 2 * 3 * k + 3"
      by auto
    with d show ?thesis by (intro exI [of _ k]) auto
  next
    assume d: "d = 1000"
    then have "d = 20 * int 50" by simp
    from one_decimal_close_aux [OF assms(1) False this _ wide_1000 len_1000]
    obtain k where "one_decimal n d =
               (if n < 0 then [45] else []) @ str_nat (k div 10) @ [46] @ str_nat (k mod 10)"
      and "2 * 50 * k \<le> nat \<bar>n\<bar> + 50" and "nat \<bar>n\<bar> \<le> 2 * 50 * k + 50"
      by auto
    with d show ?thesis by (intro exI [of _ k]) auto
  qed
qed

lemma int_of_str_1000: "int_of_str rt (asc ''1000'') = Inr 1000"
  by (simp add: int_of_str_def asc_def to_ascii_def strip_def is_space_def is_digit_def
      parse_digits_def over_cap_def)

lemma int_of_str_90: "int_of_str rt (asc ''90'') = Inr 90"
  by (simp add: int_of_str_def asc_def to_ascii_def strip_def is_space_def is_digit_def
      parse_digits_def over_cap_def)

lemma int_of_str_examples:
  "int_of_str rt (asc ''5000'') = Inr 5000" "int_of_str rt (asc ''3600'') = Inr 3600"
  "int_of_str rt (asc ''300'') = Inr 300" "int_of_str rt (asc ''4700'') = Inr 4700"
  by (simp_all add: int_of_str_def asc_def to_ascii_def strip_def is_space_def is_digit_def
      parse_digits_def over_cap_def)

lemma one_decimal_1000_1000: "one_decimal 1000 1000 = asc ''1.0''"
  by code_simp

lemma one_decimal_90_60: "one_decimal 90 60 = asc ''1.5''"
  by code_simp

section \<open>\<open>geocode\<close>\<close>

text \<open>
  Claim C1. When the geocoding response has the status \<open>"1"\<close> and a count that is not
  \<open>"0"\<close>, \<open>geocode\<close> returns the \<open>location\<close> of the first entry of \<open>geocodes\<close> as it
  is in the response: the very value, neither parsed nor formatted again, and nothing
  is printed.
\<close>

theorem geocode_returns_first_location:
  assumes "request rt (geocode_url self) (geocode_params self address) = Inr body"
    and "field body (asc ''status'') = Some (JStr (asc ''1''))"
    and "field body (asc ''count'') = Some count" and "count \<noteq> JStr (asc ''0'')"
    and "field body (asc ''geocodes'') = Some (JList (entry # entries))"
    and "field entry (asc ''location'') = Some location"
  shows "geocode rt self address out = (Inr location, out)"
proof -
  from assms(2) obtain kvs where body: "body = JObj kvs"
    by (cases body) (simp_all add: field_def)
  from assms(6) obtain ekvs where entry: "entry = JObj ekvs"
    by (cases entry) (simp_all add: field_def)
  from assms body entry show ?thesis
    by (simp add: geocode_def py_defs field_def)
qed

theorem geocode_returns_first_location_witness:
  "geocode
     (canned_runtime (Inr (JObj
        [(asc ''status'', JStr (asc ''1'')), (asc ''count'', JStr (asc ''1'')),
         (asc ''geocodes'', JList [JObj [(asc ''location'', JStr (asc ''116.1,39.9''))]])])))
     (init (asc ''k'')) (asc ''A'') []
   = (Inr (JStr (asc ''116.1,39.9'')), [])"
  by (rule geocode_returns_first_location
        [where count = "JStr (asc ''1'')" and entries = "[]"
           and entry = "JObj [(asc ''location'', JStr (asc ''116.1,39.9''))]"
           and body = "JObj
             [(asc ''status'', JStr (asc ''1'')), (asc ''count'', JStr (asc ''1'')),
              (asc ''geocodes'', JList [JObj [(asc ''location'', JStr (asc ''116.1,39.9''))]])]"])
     (simp_all add: canned_runtime_def request_def geocode_params_def init_def asc_clean
        field_def asc_eq_iff)

text \<open>
  Claim C2. \<open>geocode\<close> never raises, whatever the exchange yields. When the response
  carries a status that is not \<open>"1"\<close>, or the count \<open>"0"\<close>, it returns \<open>None\<close> and
  prints two lines, the first of which ends with the address, the second with the
  \<open>repr\<close> of the body. When the exchange or the JSON parser raises, it returns \<open>None\<close>
  and prints one line with the text of the exception.
\<close>

theorem geocode_failure_is_absorbed:
  "\<not> raised (geocode rt self address out)
   \<and> (request rt (geocode_url self) (geocode_params self address) = Inr body
        \<and> geocode_rejected body \<longrightarrow>
      geocode rt self address out =
        (Inr JNull, out @ [msg_geocode_failed @ address,
                           msg_error_info @ chars (container_repr rt body)]))
   \<and> (request rt (geocode_url self) (geocode_params self address) = Inl e \<longrightarrow>
      geocode rt self address out =
        (Inr JNull, out @ [msg_geocode_exception @ chars (exn_str rt e)]))"
  using geocode_never_raises geocode_on_rejected geocode_on_exception by blast

theorem geocode_failure_is_absorbed_witness:
  "\<not> raised (geocode (canned_runtime (Inr (JObj [(asc ''status'', JStr (asc ''0''))])))
                (init (asc ''k'')) (asc ''nowhere'') [])
   \<and> geocode (canned_runtime (Inr (JObj [(asc ''status'', JStr (asc ''0''))])))
        (init (asc ''k'')) (asc ''nowhere'') []
      = (Inr JNull, [msg_geocode_failed @ asc ''nowhere'', msg_error_info @ asc ''container''])
   \<and> geocode (canned_runtime (Inl (RequestException (asc ''timeout''))))
        (init (asc ''k'')) (asc ''nowhere'') []
      = (Inr JNull, [msg_geocode_exception @ asc ''error''])"
  using
    geocode_failure_is_absorbed
      [where rt = "canned_runtime (Inr (JObj [(asc ''status'', JStr (asc ''0''))]))"
         and self = "init (asc ''k'')" and address = "asc ''nowhere''" and out = "[]"
         and body = "JObj [(asc ''status'', JStr (asc ''0''))]"]
    geocode_failure_is_absorbed
      [where rt = "canned_runtime (Inl (RequestException (asc ''timeout'')))"
         and self = "init (asc ''k'')" and address = "asc ''nowhere''" and out = "[]"
         and e = "RequestException (asc ''timeout'')"]
  by (simp add: canned_runtime_def request_def geocode_params_def init_def asc_clean
      geocode_rejected_def field_def raised_def ascii_text.rep_eq asc_eq_iff)

text \<open>
  Claim C9. When the status is \<open>"1"\<close> and the count is not \<open>"0"\<close>, but \<open>geocodes\<close> is
  missing, or is the empty list, or its first entry has no \<open>location\<close>, the lookup
  raises inside the \<open>try\<close>: \<open>geocode\<close> returns \<open>None\<close> and prints the line of the
  exception handler, with the text of that \<open>KeyError\<close> or \<open>IndexError\<close>.
\<close>

theorem geocode_lookup_failure_is_caught:
  assumes "request rt (geocode_url self) (geocode_params self address) = Inr body"
    and "field body (asc ''status'') = Some (JStr (asc ''1''))"
    and "field body (asc ''count'') = Some count" and "count \<noteq> JStr (asc ''0'')"
    and "field body (asc ''geocodes'') = None \<and> e = KeyError (JStr (asc ''geocodes''))
       \<or> field body (asc ''geocodes'') = Some (JList []) \<and> e = IndexError
       \<or> (\<exists>ekvs entries.
            field body (asc ''geocodes'') = Some (JList (JObj ekvs # entries))
            \<and> map_of ekvs (asc ''location'') = None
            \<and> e = KeyError (JStr (asc ''location'')))"
  shows "geocode rt self address out =
           (Inr JNull, out @ [msg_geocode_exception @ chars (exn_str rt e)])"
proof -
  from assms(2) obtain kvs where body: "body = JObj kvs"
    by (cases body) (simp_all add: field_def)
  from assms body show ?thesis
    by (auto simp add: geocode_def py_defs field_def clean)
qed

theorem geocode_lookup_failure_is_caught_witness:
  "geocode
     (canned_runtime (Inr (JObj
        [(asc ''status'', JStr (asc ''1'')), (asc ''count'', JStr (asc ''1'')),
         (asc ''geocodes'', JList [])])))
     (init (asc ''k'')) (asc ''A'') []
   = (Inr JNull, [msg_geocode_exception @ asc ''error''])"
  using geocode_lookup_failure_is_caught
      [where rt = "canned_runtime (Inr (JObj
                     [(asc ''status'', JStr (asc ''1'')), (asc ''count'', JStr (asc ''1'')),
                      (asc ''geocodes'', JList [])]))"
         and self = "init (asc ''k'')" and address = "asc ''A''" and out = "[]"
         and body = "JObj [(asc ''status'', JStr (asc ''1'')), (asc ''count'', JStr (asc ''1'')),
                      (asc ''geocodes'', JList [])]"
         and count = "JStr (asc ''1'')" and e = IndexError]
  by (simp add: canned_runtime_def request_def geocode_params_def init_def asc_clean
      field_def ascii_text.rep_eq asc_eq_iff)

section \<open>\<open>get_walking_navigation\<close>\<close>

text \<open>
  Claim C3. \<open>get_walking_navigation\<close> always returns a value, never an exception: the
  parsed body itself when its top-level status is the string \<open>"1"\<close>, and \<open>None\<close> for
  every other body and for every exception of the exchange or of the parser. A body
  that is \<open>None\<close> has no status, so the body is what comes back exactly when the status
  is \<open>"1"\<close>.
\<close>

theorem walking_returns_body_iff_status_1:
  "fst (get_walking_navigation rt self origin destination out) =
     Inr (case request rt (walking_url self) (walking_params self origin destination) of
            Inl e \<Rightarrow> JNull
          | Inr body \<Rightarrow> if status_is_1 body then body else JNull)
   \<and> \<not> status_is_1 JNull"
proof -
  have null: "\<not> status_is_1 JNull"
    by (simp add: status_is_1_def field_def)
  show ?thesis
  proof (cases "request rt (walking_url self) (walking_params self origin destination)")
    case (Inl e)
    from walking_on_exception [OF Inl, of out] Inl null show ?thesis by simp
  next
    case (Inr body)
    show ?thesis
    proof (cases "status_is_1 body")
      case True
      from walking_on_success [OF Inr True, of out] Inr True null show ?thesis by simp
    next
      case False
      from walking_on_failure [OF Inr False, of out] Inr False null show ?thesis by simp
    qed
  qed
qed

section \<open>\<open>display_walking_navigation\<close>\<close>

text \<open>
  Claim C5. Applied to \<open>None\<close>, or to a result object without a \<open>route\<close> field,
  \<open>display_walking_navigation\<close> prints the one line "no route available", nothing
  else, and returns without raising.
\<close>

theorem display_without_route_prints_one_line:
  assumes "nav = JNull \<or> (\<exists>kvs. nav = JObj kvs \<and> field nav (asc ''route'') = None)"
  shows "display_walking_navigation rt nav [] = (Inr (), [msg_no_route])"
proof -
  from assms
  have "\<not> truthy nav \<or> (\<exists>kvs. nav = JObj kvs \<and> map_of kvs (asc ''route'') = None)"
    by (auto simp add: field_def)
  from display_no_route [OF this, of rt "[]"] show ?thesis by simp
qed

theorem display_without_route_prints_one_line_witness:
  "display_walking_navigation (canned_runtime (Inr JNull)) JNull [] = (Inr (), [msg_no_route])
   \<and> display_walking_navigation (canned_runtime (Inr JNull))
        (JObj [(asc ''status'', JStr (asc ''1''))]) []
      = (Inr (), [msg_no_route])"
  using
    display_without_route_prints_one_line [of JNull "canned_runtime (Inr JNull)"]
    display_without_route_prints_one_line
      [of "JObj [(asc ''status'', JStr (asc ''1''))]" "canned_runtime (Inr JNull)"]
  by (simp add: field_def asc_def)

text \<open>
  Claim C10. Every value that Python takes for false (\<open>None\<close>, \<open>False\<close>, a zero, the
  empty str, list or dict) takes the "no route available" branch: one line is
  printed and the call returns. The membership test \<open>'route' in nav_result\<close>, which
  would raise for \<open>None\<close> or a number, is not reached.
\<close>

theorem display_falsy_is_no_route:
  assumes "\<not> truthy nav"
  shows "display_walking_navigation rt nav out = (Inr (), out @ [msg_no_route])"
  using assms by (simp add: display_no_route)

theorem display_falsy_is_no_route_witness:
  "display_walking_navigation (canned_runtime (Inr JNull)) (JObj []) [] = (Inr (), [msg_no_route])
   \<and> display_walking_navigation (canned_runtime (Inr JNull)) (JStr []) [] = (Inr (), [msg_no_route])
   \<and> display_walking_navigation (canned_runtime (Inr JNull)) (JList []) [] = (Inr (), [msg_no_route])
   \<and> display_walking_navigation (canned_runtime (Inr JNull)) (JInt 0) [] = (Inr (), [msg_no_route])"
  using
    display_falsy_is_no_route [of "JObj []" "canned_runtime (Inr JNull)" "[]"]
    display_falsy_is_no_route [of "JStr []" "canned_runtime (Inr JNull)" "[]"]
    display_falsy_is_no_route [of "JList []" "canned_runtime (Inr JNull)" "[]"]
    display_falsy_is_no_route [of "JInt 0" "canned_runtime (Inr JNull)" "[]"]
  by simp

text \<open>
  Claim C4 says that \<open>display_walking_navigation\<close> never raises, also when
  \<open>route.paths\<close> is empty or a required field is missing. The function has no \<open>try\<close>:
  on \<open>{"route": {"paths": []}}\<close> the subscript \<open>route['paths'][0]\<close> raises
  \<open>IndexError\<close> before anything is printed, and on a path without \<open>distance\<close> the
  header is printed and then \<open>KeyError\<close> is raised.
\<close>

theorem display_raises_on_empty_paths:
  "display_walking_navigation (canned_runtime (Inr JNull))
     (JObj [(asc ''route'', JObj [(asc ''paths'', JList [])])]) []
   = (Inl IndexError, [])
   \<and> display_walking_navigation (canned_runtime (Inr JNull))
       (JObj [(asc ''route'', JObj [(asc ''paths'', JList [JObj [(asc ''steps'', JList [])]])])]) []
     = (Inl (KeyError (JStr (asc ''distance''))), [msg_route_header])"
  by (simp add: display_walking_navigation_def py_defs asc_eq_iff clean)

text \<open>
  Claim C4, amended. \<open>display_walking_navigation\<close> returns without raising for every
  value that Python takes for false, for every object without a \<open>route\<close> field, and for
  every route result in which the first entry of the list \<open>route.paths\<close> satisfies
  \<open>path_ok\<close>, that is:
  \<^item> it is an object whose \<open>distance\<close> is converted by \<open>int\<close> to an integer below
    \<open>2 ^ 1024\<close> in absolute value;
  \<^item> its \<open>steps\<close> is a list, of fewer than \<open>2 ^ 63\<close> entries, of objects;
  \<^item> each step has an \<open>instruction\<close> that is a str without lone surrogate and a
    \<open>step_distance\<close> that \<open>int\<close> converts to an integer below \<open>2 ^ 1024\<close> in absolute
    value;
  \<^item> where a step has a \<open>road_name\<close> it is a str without lone surrogate, where it
    has a \<open>navi\<close> it is an object, and where that has an \<open>action\<close> it is a str without
    lone surrogate;
  \<^item> where the path has a \<open>cost\<close> it is an object whose \<open>duration\<close> is converted by
    \<open>int\<close> to an integer below \<open>2 ^ 1024\<close> in absolute value.

  Here \<open>nav\<close> and its \<open>route\<close> are objects. The cost block, the road name, the
  \<open>navi\<close> sub-object and its action may each be missing. Nothing is said of the
  other inputs.
\<close>

theorem display_completes_on_data_model:
  assumes "\<not> truthy nav
         \<or> (\<exists>kvs. nav = JObj kvs \<and> field nav (asc ''route'') = None)
         \<or> (\<exists>path. first_path nav = Some path \<and> path_ok rt path)"
  shows "\<not> raised (display_walking_navigation rt nav out)"
proof -
  from assms consider
      (no_route) "\<not> truthy nav \<or> (\<exists>kvs. nav = JObj kvs \<and> map_of kvs (asc ''route'') = None)"
    | (route) path where "first_path nav = Some path" and "path_ok rt path"
    by (auto simp add: field_def)
  then show ?thesis
  proof cases
    case no_route
    from display_no_route [OF this, of rt out] show ?thesis by (simp add: raised_def)
  next
    case route
    from display_ok [OF this, of out] show ?thesis by (simp add: raised_def)
  qed
qed

theorem display_completes_on_data_model_witness:
  "\<not> raised (display_walking_navigation (canned_runtime (Inr JNull))
       (JObj [(asc ''route'', JObj [(asc ''paths'', JList
          [JObj [(asc ''distance'', JStr (asc ''1000'')),
                 (asc ''steps'', JList
                    [JObj [(asc ''instruction'', JStr (asc ''go'')),
                           (asc ''step_distance'', JStr (asc ''90''))]])]])])]) [])"
proof -
  let ?rt = "canned_runtime (Inr JNull)"
  let ?step = "JObj [(asc ''instruction'', JStr (asc ''go'')),
                     (asc ''step_distance'', JStr (asc ''90''))]"
  let ?path = "JObj [(asc ''distance'', JStr (asc ''1000'')), (asc ''steps'', JList [?step])]"
  let ?nav = "JObj [(asc ''route'', JObj [(asc ''paths'', JList [?path])])]"
  have "first_path ?nav = Some ?path"
    by (simp add: first_path_def field_def asc_def)
  moreover have "path_ok ?rt ?path"
    by (simp add: path_ok_def step_ok_def field_def quantity_ok_def text_ok_def
        int_of_str_1000 int_of_str_90 asc_eq_iff asc_clean)
  ultimately have "\<not> truthy ?nav
         \<or> (\<exists>kvs. ?nav = JObj kvs \<and> field ?nav (asc ''route'') = None)
         \<or> (\<exists>path. first_path ?nav = Some path \<and> path_ok ?rt path)"
    by blast
  then show ?thesis by (rule display_completes_on_data_model)
qed

text \<open>
  Two inputs that \<open>path_ok\<close> leaves out, and on which the call raises: a distance of
  4301 digits under the default cap (\<open>int\<close> raises \<open>ValueError\<close> once the header is
  printed), and an instruction with a lone surrogate (\<open>print\<close> raises
  \<open>UnicodeEncodeError\<close> at the first line of the step).
\<close>

lemma display_raises_over_digit_cap:
  "display_walking_navigation (canned_runtime (Inr JNull))
     (JObj [(asc ''route'', JObj [(asc ''paths'', JList
        [JObj [(asc ''distance'', JStr (replicate 4301 48)),
               (asc ''steps'', JList [])]])])]) []
   = (Inl ValueError, [msg_route_header])"
proof -
  have "int_of_str (canned_runtime (Inr JNull)) (replicate 4301 48) = Inl ValueError"
    by (rule int_of_str_over_cap)
       (simp add: over_cap_def canned_runtime_def to_ascii_def strip_def is_space_def is_digit_def)
  then show ?thesis
    by (simp add: display_walking_navigation_def py_defs asc_eq_iff clean)
qed

lemma display_raises_on_lone_surrogate:
  "display_walking_navigation (canned_runtime (Inr JNull))
     (JObj [(asc ''route'', JObj [(asc ''paths'', JList
        [JObj [(asc ''distance'', JStr (asc ''1000'')),
               (asc ''steps'', JList
                  [JObj [(asc ''instruction'', JStr [0xD83D]),
                         (asc ''step_distance'', JStr (asc ''90''))]])]])])]) []
   = (Inl UnicodeEncodeError,
      [msg_route_header, msg_total_distance @ asc ''1.0'' @ msg_kilometres, msg_steps_header])"
  by code_simp

text \<open>
  Claim C6. On \<open>{"route": {"paths": [{"distance": "1000", "steps": []}]}}\<close> three
  lines are printed: the route header, the total distance with the text \<open>1.0\<close> (1000
  metres divided by 1000, one decimal place) and the header of the steps. No line of
  estimated duration and no step block is printed.
\<close>

theorem display_distance_1000_without_steps:
  "display_walking_navigation rt
     (JObj [(asc ''route'', JObj [(asc ''paths'', JList
        [JObj [(asc ''distance'', JStr (asc ''1000'')), (asc ''steps'', JList [])]])])]) []
   = (Inr (), [msg_route_header,
               msg_total_distance @ asc ''1.0'' @ msg_kilometres,
               msg_steps_header])
   \<and> \<not> list_ex is_duration_line
         [msg_route_header, msg_total_distance @ asc ''1.0'' @ msg_kilometres, msg_steps_header]"
proof -
  let ?path = "JObj [(asc ''distance'', JStr (asc ''1000'')), (asc ''steps'', JList [])]"
  let ?nav = "JObj [(asc ''route'', JObj [(asc ''paths'', JList [?path])])]"
  have first: "first_path ?nav = Some ?path"
    by (simp add: first_path_def field_def asc_def)
  have ok: "path_ok rt ?path"
    by (simp add: path_ok_def field_def quantity_ok_def int_of_str_1000 asc_eq_iff)
  have lines: "route_lines rt ?path =
      [msg_route_header, msg_total_distance @ asc ''1.0'' @ msg_kilometres, msg_steps_header]"
    by (simp add: route_lines_def distance_line_def duration_lines_def steps_of_def int_at_def
        field_def step_blocks_Nil int_of_str_1000 one_decimal_1000_1000 asc_eq_iff)
  have "\<not> list_ex is_duration_line
         [msg_route_header, msg_total_distance @ asc ''1.0'' @ msg_kilometres, msg_steps_header]"
    by (simp add: is_duration_line_def msg_duration_def msg_route_header_def
        msg_total_distance_def msg_steps_header_def)
  with display_ok [OF first ok, of "[]"] lines show ?thesis by simp
qed

lemma starts_with_append: "starts_with p (p @ s)"
  by (induction p) simp_all

lemma step_block_not_duration:
  "line \<in> set (step_block rt i step) \<Longrightarrow> \<not> is_duration_line line"
  by (auto simp add: step_block_def action_lines_def msg_step_def msg_road_name_def
      msg_step_distance_def asc_def is_duration_line_def msg_duration_def
      split: option.splits if_splits)

lemma step_blocks_not_duration:
  "line \<in> set (step_blocks rt i steps) \<Longrightarrow> \<not> is_duration_line line"
  by (auto simp add: step_blocks_def dest: step_block_not_duration)

lemma headers_not_duration:
  "\<not> is_duration_line msg_route_header" "\<not> is_duration_line msg_steps_header"
  "\<not> is_duration_line (distance_line rt path)"
  by (simp_all add: is_duration_line_def msg_duration_def msg_route_header_def
      msg_steps_header_def distance_line_def msg_total_distance_def)

lemma duration_line_in_route_lines:
  "list_ex is_duration_line (route_lines rt path) \<longleftrightarrow> field path (asc ''cost'') \<noteq> None"
proof (cases "field path (asc ''cost'')")
  case None
  then show ?thesis
    by (auto simp add: route_lines_def duration_lines_def list_ex_iff headers_not_duration
        dest: step_blocks_not_duration)
next
  case (Some cost)
  then show ?thesis
    by (simp add: route_lines_def duration_lines_def is_duration_line_def starts_with_append)
qed

text \<open>
  Claim C7. For a route result whose first path satisfies \<open>path_ok\<close>, a line of estimated
  duration is printed exactly when the first path carries a cost block. It is then
  the third line printed, and its number is the text with one decimal place of the
  seconds divided by 60: \<open>1.5\<close> for the duration \<open>"90"\<close>. For every number of seconds
  below \<open>2 ^ 53\<close> in absolute value that text \<open>k div 10 . k mod 10\<close> is within half a
  tenth of the exact quotient.
\<close>

theorem duration_line_iff_cost:
  assumes "first_path nav = Some path" and "path_ok rt path"
  shows "(list_ex is_duration_line (snd (display_walking_navigation rt nav []))
            \<longleftrightarrow> field path (asc ''cost'') \<noteq> None)
       \<and> (\<forall>cost. field path (asc ''cost'') = Some cost \<longrightarrow>
             snd (display_walking_navigation rt nav []) ! 2 =
               msg_duration @ one_decimal (int_at rt cost (asc ''duration'')) 60 @ msg_minutes)
       \<and> (\<forall>cost. field path (asc ''cost'') = Some cost
                  \<and> field cost (asc ''duration'') = Some (JStr (asc ''90'')) \<longrightarrow>
             snd (display_walking_navigation rt nav []) ! 2 =
               msg_duration @ asc ''1.5'' @ msg_minutes)
       \<and> (\<forall>seconds. \<bar>seconds\<bar> < 2 ^ 53 \<longrightarrow>
             (\<exists>k. one_decimal seconds 60 =
                     (if seconds < 0 then [45] else [])
                     @ str_nat (k div 10) @ [46] @ str_nat (k mod 10)
                  \<and> 2 * \<bar>60 * int k - 10 * \<bar>seconds\<bar>\<bar> \<le> 60))"
proof -
  have out: "snd (display_walking_navigation rt nav []) = route_lines rt path"
    using display_ok [OF assms, of "[]"] by simp
  have third: "route_lines rt path ! 2 =
      msg_duration @ one_decimal (int_at rt cost (asc ''duration'')) 60 @ msg_minutes"
    if "field path (asc ''cost'') = Some cost" for cost
    using that by (simp add: route_lines_def duration_lines_def)
  have ninety: "int_at rt cost (asc ''duration'') = 90"
    if "field cost (asc ''duration'') = Some (JStr (asc ''90''))" for cost
    using that by (simp add: int_at_def int_of_str_90)
  have close: "\<exists>k. one_decimal seconds 60 =
                     (if seconds < 0 then [45] else [])
                     @ str_nat (k div 10) @ [46] @ str_nat (k mod 10)
                  \<and> 2 * \<bar>60 * int k - 10 * \<bar>seconds\<bar>\<bar> \<le> 60"
    if "\<bar>seconds\<bar> < 2 ^ 53" for seconds
    using one_decimal_close [OF that, of 60] by simp
  show ?thesis
    unfolding out
    using duration_line_in_route_lines [of rt path] third ninety close
    by (simp add: one_decimal_90_60)
qed

theorem duration_line_iff_cost_witness:
  "list_ex is_duration_line (snd (display_walking_navigation (canned_runtime (Inr JNull))
      (JObj [(asc ''route'', JObj [(asc ''paths'', JList
         [JObj [(asc ''distance'', JStr (asc ''5000'')),
                (asc ''cost'', JObj [(asc ''duration'', JStr (asc ''90''))]),
                (asc ''steps'', JList [])]])])]) []))
   \<and> snd (display_walking_navigation (canned_runtime (Inr JNull))
      (JObj [(asc ''route'', JObj [(asc ''paths'', JList
         [JObj [(asc ''distance'', JStr (asc ''5000'')),
                (asc ''cost'', JObj [(asc ''duration'', JStr (asc ''90''))]),
                (asc ''steps'', JList [])]])])]) []) ! 2
     = msg_duration @ asc ''1.5'' @ msg_minutes"
proof -
  let ?rt = "canned_runtime (Inr JNull)"
  let ?cost = "JObj [(asc ''duration'', JStr (asc ''90''))]"
  let ?path = "JObj [(asc ''distance'', JStr (asc ''5000'')), (asc ''cost'', ?cost),
                     (asc ''steps'', JList [])]"
  let ?nav = "JObj [(asc ''route'', JObj [(asc ''paths'', JList [?path])])]"
  have first: "first_path ?nav = Some ?path"
    by (simp add: first_path_def field_def asc_def)
  have ok: "path_ok ?rt ?path"
    by (simp add: path_ok_def field_def quantity_ok_def int_of_str_90 int_of_str_examples
        asc_eq_iff)
  have cost: "field ?path (asc ''cost'') = Some ?cost"
    by (simp add: field_def asc_def)
  have duration: "field ?cost (asc ''duration'') = Some (JStr (asc ''90''))"
    by (simp add: field_def)
  note shape = duration_line_iff_cost [OF first ok]
  from shape cost
  have "list_ex is_duration_line (snd (display_walking_navigation ?rt ?nav []))"
    by (simp del: snd_conv)
  moreover from shape cost duration
  have "snd (display_walking_navigation ?rt ?nav []) ! 2 = msg_duration @ asc ''1.5'' @ msg_minutes"
    by blast
  ultimately show ?thesis by (rule conjI)
qed

text \<open>
  Claim C8. For a route result whose first path satisfies \<open>path_ok\<close> (its texts are
  strs without lone surrogate, its quantities are converted by \<open>int\<close> to integers below
  \<open>2 ^ 1024\<close> in absolute value), what follows the header of
  the steps is the block of each step of the first path, in the order of the list and
  numbered from 1. A block is the line of the instruction, the line of the road name
  and the line of the distance, then the action line if there is one. A step without
  \<open>road_name\<close> gets the placeholder in its second line while instruction and distance
  are printed as for any step. The action line is there exactly when the step has a
  \<open>navi\<close> sub-object whose \<open>action\<close> is present and not empty.
\<close>

theorem steps_rendered_in_order:
  assumes "first_path nav = Some path" and "path_ok rt path"
  shows "snd (display_walking_navigation rt nav []) =
           [msg_route_header, distance_line rt path] @ duration_lines rt path
           @ [msg_steps_header]
           @ concat (map (\<lambda>k. step_block rt (k + 1) (steps_of path ! k))
                       [0..<length (steps_of path)])
       \<and> (\<forall>i step. field step (asc ''road_name'') = None \<longrightarrow>
             step_block rt i step =
               [msg_step @ str_int (int i) @ asc '': '' @ instruction_of step,
                msg_road_name @ unnamed_road,
                msg_step_distance @ str_int (int_at rt step (asc ''step_distance'')) @ msg_metres]
               @ action_lines step)
       \<and> (\<forall>step. action_lines step \<noteq> [] \<longleftrightarrow>
             (\<exists>navi action. field step (asc ''navi'') = Some navi
                \<and> field navi (asc ''action'') = Some action \<and> truthy action))
       \<and> (\<forall>step navi s. field step (asc ''navi'') = Some navi
                \<and> field navi (asc ''action'') = Some (JStr s) \<longrightarrow>
             action_lines step = (if s = [] then [] else [asc ''  '' @ msg_action @ s]))"
proof -
  have "snd (display_walking_navigation rt nav []) = route_lines rt path"
    using display_ok [OF assms, of "[]"] by simp
  then have "snd (display_walking_navigation rt nav []) =
           [msg_route_header, distance_line rt path] @ duration_lines rt path
           @ [msg_steps_header]
           @ concat (map (\<lambda>k. step_block rt (k + 1) (steps_of path ! k))
                       [0..<length (steps_of path)])"
    by (simp add: route_lines_def step_blocks_def)
  moreover have "step_block rt i step =
               [msg_step @ str_int (int i) @ asc '': '' @ instruction_of step,
                msg_road_name @ unnamed_road,
                msg_step_distance @ str_int (int_at rt step (asc ''step_distance'')) @ msg_metres]
               @ action_lines step"
    if "field step (asc ''road_name'') = None" for i step
    using that by (simp add: step_block_def road_name_of_def)
  moreover have "action_lines step \<noteq> [] \<longleftrightarrow>
             (\<exists>navi action. field step (asc ''navi'') = Some navi
                \<and> field navi (asc ''action'') = Some action \<and> truthy action)" for step
    by (auto simp add: action_lines_def action_of_def split: option.splits)
  moreover have "action_lines step = (if s = [] then [] else [asc ''  '' @ msg_action @ s])"
    if "field step (asc ''navi'') = Some navi \<and> field navi (asc ''action'') = Some (JStr s)"
    for step navi s
    using that by (simp add: action_lines_def action_of_def text_of_def)
  ultimately show ?thesis by blast
qed

theorem steps_rendered_in_order_witness:
  "snd (display_walking_navigation (canned_runtime (Inr JNull))
      (JObj [(asc ''route'', JObj [(asc ''paths'', JList
         [JObj [(asc ''distance'', JStr (asc ''5000'')),
                (asc ''cost'', JObj [(asc ''duration'', JStr (asc ''3600''))]),
                (asc ''steps'', JList
                   [JObj [(asc ''instruction'', JStr (asc ''go north'')),
                          (asc ''step_distance'', JStr (asc ''300'')),
                          (asc ''navi'', JObj [(asc ''action'', JStr (asc ''left''))])],
                    JObj [(asc ''instruction'', JStr (asc ''arrive'')),
                          (asc ''road_name'', JStr (asc ''Main'')),
                          (asc ''step_distance'', JStr (asc ''4700'')),
                          (asc ''navi'', JObj [(asc ''action'', JStr [])])]])]])])]) [])
   = [msg_route_header,
      msg_total_distance @ asc ''5.0'' @ msg_kilometres,
      msg_duration @ asc ''60.0'' @ msg_minutes,
      msg_steps_header,
      msg_step @ asc ''1: go north'',
      msg_road_name @ unnamed_road,
      msg_step_distance @ asc ''300'' @ msg_metres,
      asc ''  '' @ msg_action @ asc ''left'',
      msg_step @ asc ''2: arrive'',
      msg_road_name @ asc ''Main'',
      msg_step_distance @ asc ''4700'' @ msg_metres]"
proof -
  let ?rt = "canned_runtime (Inr JNull)"
  let ?path = "JObj [(asc ''distance'', JStr (asc ''5000'')),
                (asc ''cost'', JObj [(asc ''duration'', JStr (asc ''3600''))]),
                (asc ''steps'', JList
                   [JObj [(asc ''instruction'', JStr (asc ''go north'')),
                          (asc ''step_distance'', JStr (asc ''300'')),
                          (asc ''navi'', JObj [(asc ''action'', JStr (asc ''left''))])],
                    JObj [(asc ''instruction'', JStr (asc ''arrive'')),
                          (asc ''road_name'', JStr (asc ''Main'')),
                          (asc ''step_distance'', JStr (asc ''4700'')),
                          (asc ''navi'', JObj [(asc ''action'', JStr [])])]])]"
  let ?nav = "JObj [(asc ''route'', JObj [(asc ''paths'', JList [?path])])]"
  have first: "first_path ?nav = Some ?path"
    by (simp add: first_path_def field_def asc_def)
  have ok: "path_ok ?rt ?path"
    by (simp add: path_ok_def step_ok_def field_def quantity_ok_def text_ok_def
        int_of_str_examples asc_eq_iff asc_clean has_surrogate_Nil)
  have lines: "[msg_route_header, distance_line ?rt ?path] @ duration_lines ?rt ?path
           @ [msg_steps_header]
           @ concat (map (\<lambda>k. step_block ?rt (k + 1) (steps_of ?path ! k))
                       [0..<length (steps_of ?path)])
     = [msg_route_header,
      msg_total_distance @ asc ''5.0'' @ msg_kilometres,
      msg_duration @ asc ''60.0'' @ msg_minutes,
      msg_steps_header,
      msg_step @ asc ''1: go north'',
      msg_road_name @ unnamed_road,
      msg_step_distance @ asc ''300'' @ msg_metres,
      asc ''  '' @ msg_action @ asc ''left'',
      msg_step @ asc ''2: arrive'',
      msg_road_name @ asc ''Main'',
      msg_step_distance @ asc ''4700'' @ msg_metres]"
    by code_simp
  from steps_rendered_in_order [OF first ok, THEN conjunct1] lines show ?thesis
    by (rule trans)
qed

end
